theory Spec2Isabelle
  imports Complex_Main
begin

section \<open>The buy-ticket dialog of the NFT ticketing front end\<close>

text \<open>
  The development embeds \<^verbatim>\<open>BuyTicketModal.tsx\<close>: the component state, the memoised
  values of one render, the price-fetch effect and the click handler
  \<^verbatim>\<open>handleBuyTicket\<close>. Calls into the wallet, the SDK and the contract client are
  parameters of the model (a record of their outcomes); what the component does with their
  results is taken from the source line by line.
\<close>

subsection \<open>JavaScript numbers\<close>

text \<open>
  A JavaScript number is an IEEE 754 binary64 value. A finite value is kept as the rational
  it denotes; the two zeros are identified, since the component reads a number only through
  \<^verbatim>\<open>!x\<close>, \<^verbatim>\<open>x <= 0\<close>, \<^verbatim>\<open>x / 1_000_000\<close> and \<^verbatim>\<open>x * 1_000_000\<close>, none of which
  tells them apart (up to the sign of a zero result). Every operation below rounds its
  result to a binary64 value; a statement about all \<open>Fin x\<close> holds in particular for the
  values that are representable.
\<close>

datatype number = NaN | PosInf | NegInf | Fin rat

text \<open>Number of binary digits of a positive integer.\<close>

function bit_length :: "int \<Rightarrow> int" where
  "bit_length n = (if n \<le> 0 then 0 else 1 + bit_length (n div 2))"
  by pat_completeness auto
termination
  by (relation "measure nat") auto

definition pow2 :: "int \<Rightarrow> rat" where
  "pow2 e = (if 0 \<le> e then 2 ^ nat e else 1 / 2 ^ nat (- e))"

text \<open>Quotient \<open>q\<close> with remainder \<open>r\<close> of a division by \<open>d\<close>, rounded to nearest, ties to even.\<close>

definition ties_to_even :: "int \<Rightarrow> int \<Rightarrow> int \<Rightarrow> int" where
  "ties_to_even q r d =
     (if 2 * r < d then q else if d < 2 * r then q + 1 else if even q then q else q + 1)"

definition round_half_even :: "int \<Rightarrow> int \<Rightarrow> int" where
  "round_half_even n d = ties_to_even (n div d) (n mod d) d"

text \<open>
  The binary exponent \<open>\<lfloor>log\<^sub>2 (n / d)\<rfloor>\<close> of a positive fraction: the difference of the bit
  lengths, or one less.
\<close>

definition adjust_exponent :: "int \<Rightarrow> int \<Rightarrow> int \<Rightarrow> int" where
  "adjust_exponent n d k =
     (if (if 0 \<le> k then d * 2 ^ nat k \<le> n else d \<le> n * 2 ^ nat (- k)) then k else k - 1)"

definition exponent_of :: "int \<Rightarrow> int \<Rightarrow> int" where
  "exponent_of n d = adjust_exponent n d (bit_length n - bit_length d)"

text \<open>The fraction \<open>n / d\<close> in units of \<open>2\<^sup>s\<close>, rounded to an integer.\<close>

definition significand :: "int \<Rightarrow> int \<Rightarrow> int \<Rightarrow> int" where
  "significand n d s =
     (if 0 \<le> s then round_half_even n (d * 2 ^ nat s) else round_half_even (n * 2 ^ nat (- s)) d)"

text \<open>
  A significand \<open>m\<close> of at most 53 bits at exponent \<open>e\<close>; a result of \<open>2\<^sup>1\<^sup>0\<^sup>2\<^sup>4\<close> or more
  overflows to an infinity.
\<close>

definition pack :: "bool \<Rightarrow> int \<Rightarrow> int \<Rightarrow> number" where
  "pack pos e m =
     (if 1024 \<le> e \<or> (e = 1023 \<and> m = 2 ^ 53) then (if pos then PosInf else NegInf)
      else Fin ((if pos then 1 else - 1) * of_int m * pow2 (e - 52)))"

definition round_at :: "bool \<Rightarrow> int \<Rightarrow> int \<Rightarrow> int \<Rightarrow> number" where
  "round_at pos n d e = pack pos e (significand n d (e - 52))"

text \<open>Exponents below \<open>-1022\<close> are subnormal: the unit stays \<open>2\<^sup>-\<^sup>1\<^sup>0\<^sup>7\<^sup>4\<close>.\<close>

definition round_frac :: "bool \<Rightarrow> int \<times> int \<Rightarrow> number" where
  "round_frac pos nd = (case nd of (n, d) \<Rightarrow> round_at pos n d (max (exponent_of n d) (- 1022)))"

text \<open>The binary64 value nearest to a rational (round to nearest, ties to even).\<close>

definition round_binary64 :: "rat \<Rightarrow> number" where
  "round_binary64 x = (if x = 0 then Fin 0 else round_frac (0 < x) (quotient_of \<bar>x\<bar>))"

text \<open>\<^verbatim>\<open>x / 1_000_000\<close> and \<^verbatim>\<open>x * 1_000_000\<close>, the two arithmetic expressions of the source.\<close>

fun js_div_1_000_000 :: "number \<Rightarrow> number" where
  "js_div_1_000_000 (Fin x) = round_binary64 (x / 1000000)"
| "js_div_1_000_000 v = v"

fun js_mul_1_000_000 :: "number \<Rightarrow> number" where
  "js_mul_1_000_000 (Fin x) = round_binary64 (x * 1000000)"
| "js_mul_1_000_000 v = v"

text \<open>\<^verbatim>\<open>!x\<close> on a number: true for zero and NaN.\<close>

definition falsy_number :: "number \<Rightarrow> bool" where
  "falsy_number x = (x = NaN \<or> x = Fin 0)"

text \<open>\<^verbatim>\<open>x <= 0\<close> on a number: false when \<open>x\<close> is NaN.\<close>

fun le_zero :: "number \<Rightarrow> bool" where
  "le_zero NaN = False"
| "le_zero PosInf = False"
| "le_zero NegInf = True"
| "le_zero (Fin x) = (x \<le> 0)"

subsection \<open>\<^verbatim>\<open>Number(string)\<close>\<close>

text \<open>
  The conversion of ECMAScript's StringToNumber, on the grammar StringNumericLiteral. A
  string is a list of code units in the range U+0000 to U+00FF; the white space of the
  grammar in that range is TAB, LF, VT, FF, CR, SP and NBSP.
\<close>

definition StrWhiteSpaceChar :: "char \<Rightarrow> bool" where
  "StrWhiteSpaceChar ch = ((of_char ch :: nat) \<in> {9, 10, 11, 12, 13, 32, 160})"

definition trim :: "string \<Rightarrow> string" where
  "trim s = rev (dropWhile StrWhiteSpaceChar (rev (dropWhile StrWhiteSpaceChar s)))"

definition digit_of :: "char \<Rightarrow> nat option" where
  "digit_of ch =
     (let n = (of_char ch :: nat)
      in if 48 \<le> n \<and> n \<le> 57 then Some (n - 48)
         else if 97 \<le> n \<and> n \<le> 102 then Some (n - 87)
         else if 65 \<le> n \<and> n \<le> 70 then Some (n - 55)
         else None)"

definition DecimalDigit :: "char \<Rightarrow> bool" where
  "DecimalDigit ch = (48 \<le> (of_char ch :: nat) \<and> (of_char ch :: nat) \<le> 57)"

text \<open>The value of a digit string in a radix; \<open>None\<close> when a character is not a digit of it.\<close>

fun radix_value :: "nat \<Rightarrow> nat \<Rightarrow> string \<Rightarrow> nat option" where
  "radix_value b acc [] = Some acc"
| "radix_value b acc (ch # cs) =
     (case digit_of ch of
        None \<Rightarrow> None
      | Some v \<Rightarrow> if v < b then radix_value b (acc * b + v) cs else None)"

definition digits_value :: "nat \<Rightarrow> string \<Rightarrow> nat option" where
  "digits_value b ds = (if ds = [] then None else radix_value b 0 ds)"

text \<open>SignedInteger of an ExponentPart.\<close>

definition SignedInteger :: "string \<Rightarrow> int option" where
  "SignedInteger s =
     (case s of
        [] \<Rightarrow> None
      | ch # cs \<Rightarrow>
          if ch = CHR ''+'' then map_option int (digits_value 10 cs)
          else if ch = CHR ''-'' then map_option (\<lambda>v. - int v) (digits_value 10 cs)
          else map_option int (digits_value 10 s))"

text \<open>What follows the digits: nothing, or an exponent part.\<close>

definition ExponentPart_opt :: "string \<Rightarrow> int option" where
  "ExponentPart_opt s =
     (case s of
        [] \<Rightarrow> Some 0
      | ch # cs \<Rightarrow> if ch = CHR ''e'' \<or> ch = CHR ''E'' then SignedInteger cs else None)"

definition pow10 :: "int \<Rightarrow> rat" where
  "pow10 e = (if 0 \<le> e then 10 ^ nat e else 1 / 10 ^ nat (- e))"

text \<open>
  The mathematical value of the digits \<open>ds1 . ds2\<close> followed by \<open>rest\<close>; one of the two digit
  strings may be empty, not both.
\<close>

definition decimal_value :: "string \<Rightarrow> string \<Rightarrow> string \<Rightarrow> rat option" where
  "decimal_value ds1 ds2 rest =
     (if ds1 = [] \<and> ds2 = [] then None
      else case (radix_value 10 0 (ds1 @ ds2), ExponentPart_opt rest) of
             (Some m, Some e) \<Rightarrow> Some (of_nat m * pow10 (e - int (length ds2)))
           | _ \<Rightarrow> None)"

definition after_integer_part :: "string \<Rightarrow> string \<Rightarrow> rat option" where
  "after_integer_part ds1 rest =
     (case rest of
        [] \<Rightarrow> decimal_value ds1 [] []
      | ch # cs \<Rightarrow>
          if ch = CHR ''.''
          then decimal_value ds1 (takeWhile DecimalDigit cs) (dropWhile DecimalDigit cs)
          else decimal_value ds1 [] rest)"

definition StrUnsignedDecimalLiteral :: "bool \<Rightarrow> string \<Rightarrow> number option" where
  "StrUnsignedDecimalLiteral pos s =
     (if s = ''Infinity'' then Some (if pos then PosInf else NegInf)
      else map_option (\<lambda>v. round_binary64 (if pos then v else - v))
             (after_integer_part (takeWhile DecimalDigit s) (dropWhile DecimalDigit s)))"

definition StrDecimalLiteral :: "string \<Rightarrow> number option" where
  "StrDecimalLiteral s =
     (case s of
        [] \<Rightarrow> None
      | ch # cs \<Rightarrow>
          if ch = CHR ''+'' then StrUnsignedDecimalLiteral True cs
          else if ch = CHR ''-'' then StrUnsignedDecimalLiteral False cs
          else StrUnsignedDecimalLiteral True s)"

text \<open>Binary, octal and hexadecimal integer literals: a prefix and at least one digit.\<close>

definition NonDecimalIntegerLiteral :: "string \<Rightarrow> number option option" where
  "NonDecimalIntegerLiteral s =
     (case s of
        c0 # c1 # ds \<Rightarrow>
          if c0 \<noteq> CHR ''0'' then None
          else if c1 = CHR ''b'' \<or> c1 = CHR ''B''
            then Some (map_option (\<lambda>v. round_binary64 (of_nat v)) (digits_value 2 ds))
          else if c1 = CHR ''o'' \<or> c1 = CHR ''O''
            then Some (map_option (\<lambda>v. round_binary64 (of_nat v)) (digits_value 8 ds))
          else if c1 = CHR ''x'' \<or> c1 = CHR ''X''
            then Some (map_option (\<lambda>v. round_binary64 (of_nat v)) (digits_value 16 ds))
          else None
      | _ \<Rightarrow> None)"

text \<open>
  StringToNumber: \<open>None\<close> when the string is not a StringNumericLiteral. The empty and the
  all-blank string denote zero.
\<close>

definition StringToNumber :: "string \<Rightarrow> number option" where
  "StringToNumber s =
     (let t = trim s
      in if t = [] then Some (Fin 0)
         else case NonDecimalIntegerLiteral t of
                Some r \<Rightarrow> r
              | None \<Rightarrow> StrDecimalLiteral t)"

definition Number :: "string \<Rightarrow> number" where
  "Number s = (case StringToNumber s of None \<Rightarrow> NaN | Some v \<Rightarrow> v)"

subsection \<open>Values of the component\<close>

text \<open>
  Objects and functions that React compares by identity are kept with a reference number.
  \<open>None\<close> stands for \<^verbatim>\<open>null\<close> and \<^verbatim>\<open>undefined\<close>.
\<close>

type_synonym ref = nat

datatype signer = Signer ref

datatype suggested_params = SuggestedParams nat

datatype app_client = AppClient nat

text \<open>
  What a \<^verbatim>\<open>throw\<close> raised: an \<^verbatim>\<open>Error\<close> object with its message, or any other value
  with its text, such as a thrown string (\<^verbatim>\<open>e instanceof Error\<close> tells them apart).
\<close>

datatype thrown = Error_instance string | Other_value string

datatype variant = success | warning | error

text \<open>The object handed to \<^verbatim>\<open>makePaymentTxnWithSuggestedParamsFromObject\<close>.\<close>

record payment =
  sender :: "string option"
  receiver :: string
  amount :: number
  suggestedParams :: suggested_params

text \<open>\<^verbatim>\<open>new NftBookingsFactory(algodClient, activeAddress, transactionSigner, CONFIG.IS_DEVELOPMENT)\<close>\<close>

record factory =
  factory_ref :: ref
  factory_algodClient :: ref
  factory_activeAddress :: "string option"
  factory_transactionSigner :: "signer option"
  factory_isDevelopment :: bool

text \<open>The four \<^verbatim>\<open>useState\<close> cells.\<close>

record component_state =
  eventId :: string
  receiverAddress :: string
  loading :: bool
  ticketPrice :: "number option"

definition initial_state :: component_state where
  "initial_state =
     \<lparr>eventId = [],
      receiverAddress = ''2ZTFJNDXPWDETGJQQN33HAATRHXZMBWESKO2AUFZUHERH2H3TG4XTNPL4Y'',
      loading = False,
      ticketPrice = None\<rparr>"

text \<open>
  What one render receives from outside the component: the wallet of \<^verbatim>\<open>useWallet()\<close>, the
  function of \<^verbatim>\<open>useSnackbar()\<close> and the object that
  \<^verbatim>\<open>getAlgodConfigFromViteEnvironment()\<close> returned, the last two by identity.
\<close>

record environment =
  activeAddress :: "string option"
  transactionSigner :: "signer option"
  enqueueSnackbar_ref :: ref
  algodConfig :: ref

text \<open>The function \<^verbatim>\<open>useCallback\<close> returned, with the \<^verbatim>\<open>appFactory\<close> it closes over.\<close>

record callback =
  callback_ref :: ref
  appFactory :: "factory option"

text \<open>What the effect and the click handler of one render close over.\<close>

record closure =
  state :: component_state
  env :: environment
  algodClient :: ref
  getAppClient :: callback

text \<open>
  The code outside the component: the constants of \<^verbatim>\<open>CONFIG\<close> and the outcome of each
  call into the SDK and the contract client. An awaited call settles: it resolves (\<open>Inr\<close>)
  or rejects (\<open>Inl\<close>). \<open>payment_refused\<close> is the exception, if any, with which
  \<^verbatim>\<open>makePaymentTxnWithSuggestedParamsFromObject\<close> refuses its argument.
\<close>

record world =
  APP_ID :: nat
  IS_DEVELOPMENT :: bool
  getClient :: "factory \<Rightarrow> nat \<Rightarrow> thrown + app_client"
  getTicketPrice :: "app_client \<Rightarrow> thrown + number"
  getTransactionParams :: "ref \<Rightarrow> thrown + suggested_params"
  payment_refused :: "payment \<Rightarrow> thrown option"
  bookTicket :: "app_client \<Rightarrow> number \<Rightarrow> payment \<Rightarrow> thrown + string"

subsection \<open>Traces\<close>

text \<open>
  What a handler does to the rest of the program, in order: state setters, notifications,
  the \<^verbatim>\<open>closeModal\<close> prop, the window event, the console, and the remote calls it starts.
\<close>

datatype action =
    setEventId string
  | setReceiverAddress string
  | setLoading bool
  | setTicketPrice "number option"
  | enqueueSnackbar string variant
  | closeModal
  | dispatchEvent string
  | console_error string thrown
  | call_getTicketPrice app_client
  | call_getTransactionParams ref
  | call_bookTicket app_client number payment

text \<open>
  A computation yields the actions it performed and either the exception that ended it or
  its result.
\<close>

type_synonym 'a eff = "action list \<times> (thrown + 'a)"

definition returns :: "'a \<Rightarrow> 'a eff" where
  "returns x = ([], Inr x)"

definition throws :: "thrown \<Rightarrow> 'a eff" where
  "throws e = ([], Inl e)"

definition does :: "action \<Rightarrow> unit eff" where
  "does a = ([a], Inr ())"

text \<open>\<^verbatim>\<open>await\<close> of a remote call: the call is started, then its outcome is the result.\<close>

definition await :: "action \<Rightarrow> thrown + 'a \<Rightarrow> 'a eff" where
  "await a outcome = ([a], outcome)"

definition and_then :: "'a eff \<Rightarrow> ('a \<Rightarrow> 'b eff) \<Rightarrow> 'b eff" where
  "and_then m f =
     (case m of
        (tr, Inl e) \<Rightarrow> (tr, Inl e)
      | (tr, Inr x) \<Rightarrow> (case f x of (tr', r) \<Rightarrow> (tr @ tr', r)))"

definition try_catch :: "'a eff \<Rightarrow> (thrown \<Rightarrow> 'a eff) \<Rightarrow> 'a eff" where
  "try_catch m handler =
     (case m of
        (tr, Inl e) \<Rightarrow> (case handler e of (tr', r) \<Rightarrow> (tr @ tr', r))
      | (tr, Inr x) \<Rightarrow> (tr, Inr x))"

definition try_finally :: "'a eff \<Rightarrow> unit eff \<Rightarrow> 'a eff" where
  "try_finally m finalizer =
     (case m of
        (tr, r) \<Rightarrow>
          (case finalizer of
             (tr', Inl e) \<Rightarrow> (tr @ tr', Inl e)
           | (tr', Inr _) \<Rightarrow> (tr @ tr', r)))"

text \<open>The effect of a trace on the component state.\<close>

fun apply_action :: "action \<Rightarrow> component_state \<Rightarrow> component_state" where
  "apply_action (setEventId v) s = s\<lparr>eventId := v\<rparr>"
| "apply_action (setReceiverAddress v) s = s\<lparr>receiverAddress := v\<rparr>"
| "apply_action (setLoading v) s = s\<lparr>loading := v\<rparr>"
| "apply_action (setTicketPrice v) s = s\<lparr>ticketPrice := v\<rparr>"
| "apply_action _ s = s"

definition run_actions :: "action list \<Rightarrow> component_state \<Rightarrow> component_state" where
  "run_actions tr s = fold apply_action tr s"

text \<open>What a trace shows to the user and to the rest of the program.\<close>

fun notification :: "action \<Rightarrow> (string \<times> variant) option" where
  "notification (enqueueSnackbar msg v) = Some (msg, v)"
| "notification _ = None"

definition notifications :: "action list \<Rightarrow> (string \<times> variant) list" where
  "notifications tr = List.map_filter notification tr"

fun window_event :: "action \<Rightarrow> string option" where
  "window_event (dispatchEvent name) = Some name"
| "window_event _ = None"

definition window_events :: "action list \<Rightarrow> string list" where
  "window_events tr = List.map_filter window_event tr"

fun booking :: "action \<Rightarrow> (number \<times> payment) option" where
  "booking (call_bookTicket client n txn) = Some (n, txn)"
| "booking _ = None"

definition bookings :: "action list \<Rightarrow> (number \<times> payment) list" where
  "bookings tr = List.map_filter booking tr"

fun is_remote_call :: "action \<Rightarrow> bool" where
  "is_remote_call (call_getTicketPrice _) = True"
| "is_remote_call (call_getTransactionParams _) = True"
| "is_remote_call (call_bookTicket _ _ _) = True"
| "is_remote_call _ = False"

fun is_setLoading :: "action \<Rightarrow> bool" where
  "is_setLoading (setLoading _) = True"
| "is_setLoading _ = False"

subsection \<open>The callback, the effect and the click handler\<close>

text \<open>\<^verbatim>\<open>!x\<close> on a string or \<^verbatim>\<open>null\<close>, on a function or \<^verbatim>\<open>undefined\<close>, on the price.\<close>

definition falsy_string :: "string option \<Rightarrow> bool" where
  "falsy_string a = (a = None \<or> a = Some [])"

definition falsy_signer :: "signer option \<Rightarrow> bool" where
  "falsy_signer f = (f = None)"

definition falsy_price :: "number option \<Rightarrow> bool" where
  "falsy_price p = (case p of None \<Rightarrow> True | Some x \<Rightarrow> falsy_number x)"

text \<open>The number an arithmetic operator reads from the price: \<^verbatim>\<open>null\<close> counts as zero.\<close>

fun ToNumber :: "number option \<Rightarrow> number" where
  "ToNumber None = Fin 0"
| "ToNumber (Some x) = x"

text \<open>
  Calling \<^verbatim>\<open>getAppClient()\<close>:
  \<^verbatim>\<open>if (!appFactory) throw new Error(...); return appFactory.getClient(CONFIG.APP_ID)\<close>
\<close>

definition call_getAppClient :: "world \<Rightarrow> callback \<Rightarrow> app_client eff" where
  "call_getAppClient w cb =
     (case appFactory cb of
        None \<Rightarrow> throws (Error_instance ''Wallet not connected or factory not initialized'')
      | Some f \<Rightarrow> ([], getClient w f (APP_ID w)))"

text \<open>\<^verbatim>\<open>e instanceof Error ? e.message : fallback\<close>\<close>

fun errorMessage :: "thrown \<Rightarrow> string \<Rightarrow> string" where
  "errorMessage (Error_instance msg) fallback = msg"
| "errorMessage (Other_value other) fallback = fallback"

definition fetchTicketPrice :: "world \<Rightarrow> closure \<Rightarrow> unit eff" where
  "fetchTicketPrice w c =
     (if eventId (state c) = [] \<or> falsy_string (activeAddress (env c))
         \<or> falsy_signer (transactionSigner (env c))
      then does (setTicketPrice None)
      else
        try_catch
          (and_then (call_getAppClient w (getAppClient c)) (\<lambda>appClient.
           and_then (await (call_getTicketPrice appClient) (getTicketPrice w appClient))
             (\<lambda>priceMicro.
           does (setTicketPrice (Some (js_div_1_000_000 priceMicro))))))
          (\<lambda>e.
           and_then (does (console_error ''Error fetching ticket price:'' e)) (\<lambda>_.
           and_then (does (setTicketPrice None)) (\<lambda>_.
           does (enqueueSnackbar (errorMessage e ''Unable to fetch ticket price'') error)))))"

text \<open>
  \<^verbatim>\<open>makePaymentTxnWithSuggestedParamsFromObject\<close>: the transaction carries the fields it was
  given, unless the SDK refuses them.
\<close>

definition makePaymentTxnWithSuggestedParamsFromObject :: "world \<Rightarrow> payment \<Rightarrow> payment eff" where
  "makePaymentTxnWithSuggestedParamsFromObject w p =
     (case payment_refused w p of Some e \<Rightarrow> throws e | None \<Rightarrow> returns p)"

text \<open>
  The object literal of the payment:
  \<^verbatim>\<open>{ sender: activeAddress, receiver: receiverAddress, amount: ticketPrice * 1_000_000, suggestedParams }\<close>
\<close>

definition payment_of :: "closure \<Rightarrow> suggested_params \<Rightarrow> payment" where
  "payment_of c params =
     \<lparr>sender = activeAddress (env c),
      receiver = receiverAddress (state c),
      amount = js_mul_1_000_000 (ToNumber (ticketPrice (state c))),
      suggestedParams = params\<rparr>"

text \<open>The body of the \<^verbatim>\<open>try\<close> block of \<^verbatim>\<open>handleBuyTicket\<close>.\<close>

definition book :: "world \<Rightarrow> closure \<Rightarrow> unit eff" where
  "book w c =
     and_then (call_getAppClient w (getAppClient c)) (\<lambda>appClient.
     and_then (await (call_getTransactionParams (algodClient c))
                 (getTransactionParams w (algodClient c))) (\<lambda>params.
     and_then (makePaymentTxnWithSuggestedParamsFromObject w (payment_of c params))
       (\<lambda>paymentTxn.
     and_then (await (call_bookTicket appClient (Number (eventId (state c))) paymentTxn)
                 (bookTicket w appClient (Number (eventId (state c))) paymentTxn)) (\<lambda>response.
     and_then (does (enqueueSnackbar
                 (''Ticket booked successfully! Ticket ID: '' @ response) success)) (\<lambda>_.
     and_then (does closeModal) (\<lambda>_.
     and_then (does (setEventId [])) (\<lambda>_.
     and_then (does (setReceiverAddress
                 ''2ZTFJNDXPWDETGJQQN33HAATRHXZMBWESKO2AUFZUHERH2H3TG4XTNPL4Y'')) (\<lambda>_.
     and_then (does (setTicketPrice None)) (\<lambda>_.
     does (dispatchEvent ''refreshTickets''))))))))))"

text \<open>The \<^verbatim>\<open>catch\<close> block of \<^verbatim>\<open>handleBuyTicket\<close>.\<close>

definition booking_failed :: "thrown \<Rightarrow> unit eff" where
  "booking_failed e =
     and_then (does (console_error ''Error booking ticket:'' e)) (\<lambda>_.
     does (enqueueSnackbar (''Error booking ticket: '' @ errorMessage e ''Unknown error'') error))"

definition handleBuyTicket :: "world \<Rightarrow> closure \<Rightarrow> unit eff" where
  "handleBuyTicket w c =
     (if falsy_string (activeAddress (env c)) \<or> falsy_signer (transactionSigner (env c))
      then does (enqueueSnackbar ''Please connect your wallet first'' warning)
      else if eventId (state c) = []
      then does (enqueueSnackbar ''Please enter an Event ID'' error)
      else if receiverAddress (state c) = []
      then does (enqueueSnackbar ''Please enter a receiver address'' error)
      else if falsy_price (ticketPrice (state c)) \<or> le_zero (ToNumber (ticketPrice (state c)))
      then does (enqueueSnackbar ''Ticket price not available'' error)
      else
        and_then (does (setLoading True)) (\<lambda>_.
        try_finally (try_catch (book w c) booking_failed) (does (setLoading False))))"

text \<open>\<^verbatim>\<open>disabled={loading || !ticketPrice}\<close> of the submit button.\<close>

definition submit_disabled :: "component_state \<Rightarrow> bool" where
  "submit_disabled s = (loading s \<or> falsy_price (ticketPrice s))"

subsection \<open>One render: the memoised values and the effect's dependencies\<close>

text \<open>
  \<^verbatim>\<open>useMemo\<close> and \<^verbatim>\<open>useCallback\<close> keep the value of the last render together with the
  dependencies it was computed from, and compute a fresh value when a dependency differs
  (strings by content, objects and functions by identity). \<^verbatim>\<open>useEffect\<close> keeps the
  dependencies of the last render and runs the effect again when one differs.
\<close>

record hook_memory =
  algodClient_memo :: "(ref \<times> ref) option"
  appFactory_memo :: "((ref \<times> string option \<times> signer option) \<times> factory option) option"
  getAppClient_memo :: "(ref option \<times> callback) option"
  effect_deps :: "(string \<times> string option \<times> signer option \<times> ref \<times> ref) option"
  next_ref :: ref

definition useMemo :: "('d \<times> 'v) option \<Rightarrow> 'd \<Rightarrow> 'v \<Rightarrow> 'v" where
  "useMemo cell deps fresh =
     (case cell of None \<Rightarrow> fresh | Some (d, v) \<Rightarrow> if d = deps then v else fresh)"

text \<open>
  The body of the \<^verbatim>\<open>useMemo\<close> of \<^verbatim>\<open>appFactory\<close>:
  \<^verbatim>\<open>if (!activeAddress || !transactionSigner) return null; return new NftBookingsFactory(...)\<close>
\<close>

definition new_appFactory :: "world \<Rightarrow> ref \<Rightarrow> ref \<Rightarrow> environment \<Rightarrow> factory option" where
  "new_appFactory w r client e =
     (if falsy_string (activeAddress e) \<or> falsy_signer (transactionSigner e) then None
      else Some \<lparr>factory_ref = r,
                 factory_algodClient = client,
                 factory_activeAddress = activeAddress e,
                 factory_transactionSigner = transactionSigner e,
                 factory_isDevelopment = IS_DEVELOPMENT w\<rparr>)"

text \<open>
  A render yields the closure of its handlers, whether the price-fetch effect runs after it,
  and the memory of the hooks for the next render. The dependency lists are those of the
  source: \<^verbatim>\<open>[algodConfig]\<close>, \<^verbatim>\<open>[algodClient, activeAddress, transactionSigner]\<close>,
  \<^verbatim>\<open>[appFactory]\<close> and
  \<^verbatim>\<open>[eventId, activeAddress, transactionSigner, getAppClient, enqueueSnackbar]\<close>. Objects
  created by a render take the references \<open>next_ref\<close>, \<open>next_ref + 1\<close> and \<open>next_ref + 2\<close>.
  The \<^verbatim>\<open>algorand\<close> client of the source is created and given the signer, but neither the
  effect nor the handler reads it; it is left out.
\<close>

definition render ::
  "world \<Rightarrow> environment \<Rightarrow> component_state \<Rightarrow> hook_memory \<Rightarrow> closure \<times> bool \<times> hook_memory" where
  "render w e s h =
     (let r = next_ref h;
          client = useMemo (algodClient_memo h) (algodConfig e) r;
          factory_deps = (client, activeAddress e, transactionSigner e);
          fac = useMemo (appFactory_memo h) factory_deps (new_appFactory w (r + 1) client e);
          cb = useMemo (getAppClient_memo h) (map_option factory_ref fac)
                 \<lparr>callback_ref = r + 2, appFactory = fac\<rparr>;
          deps = (eventId s, activeAddress e, transactionSigner e, callback_ref cb,
                  enqueueSnackbar_ref e)
      in (\<lparr>state = s, env = e, algodClient = client, getAppClient = cb\<rparr>,
          effect_deps h \<noteq> Some deps,
          \<lparr>algodClient_memo = Some (algodConfig e, client),
           appFactory_memo = Some (factory_deps, fac),
           getAppClient_memo = Some (map_option factory_ref fac, cb),
           effect_deps = Some deps,
           next_ref = r + 3\<rparr>))"

definition rendered :: "closure \<times> bool \<times> hook_memory \<Rightarrow> closure" where
  "rendered x = fst x"

definition effect_runs :: "closure \<times> bool \<times> hook_memory \<Rightarrow> bool" where
  "effect_runs x = fst (snd x)"

definition memory :: "closure \<times> bool \<times> hook_memory \<Rightarrow> hook_memory" where
  "memory x = snd (snd x)"

text \<open>The memory of the hooks before the first render, and after a sequence of renders.\<close>

definition mount :: hook_memory where
  "mount =
     \<lparr>algodClient_memo = None, appFactory_memo = None, getAppClient_memo = None,
      effect_deps = None, next_ref = 0\<rparr>"

fun after_renders ::
  "world \<Rightarrow> (environment \<times> component_state) list \<Rightarrow> hook_memory \<Rightarrow> hook_memory" where
  "after_renders w [] h = h"
| "after_renders w ((e, s) # rs) h = after_renders w rs (memory (render w e s h))"

text \<open>
  What the memory of the hooks holds between renders: a memoised factory is \<^verbatim>\<open>null\<close>
  exactly when the wallet it was computed from is missing, and the memoised callback was
  created for the factory it closes over.
\<close>

definition memo_consistent :: "hook_memory \<Rightarrow> bool" where
  "memo_consistent h =
     ((case appFactory_memo h of
         None \<Rightarrow> True
       | Some ((client, a, sg), fac) \<Rightarrow> (fac = None) = (falsy_string a \<or> falsy_signer sg))
      \<and> (case getAppClient_memo h of
            None \<Rightarrow> True
          | Some (d, cb) \<Rightarrow> d = map_option factory_ref (appFactory cb)))"

subsection \<open>The preconditions of a submission, as the specification lists them\<close>

text \<open>
  The specification checks four preconditions in order: wallet connected, identifier
  present, receiver address present, price available and positive. \<open>first_failed\<close> is the
  first one that does not hold, following the specification's words; the theorems compare
  it with \<open>handleBuyTicket\<close>.
\<close>

datatype precondition = Wallet_connected | Identifier_present | Receiver_present | Price_positive

definition wallet_connected :: "environment \<Rightarrow> bool" where
  "wallet_connected e =
     ((case activeAddress e of None \<Rightarrow> False | Some a \<Rightarrow> a \<noteq> [])
      \<and> transactionSigner e \<noteq> None)"

fun positive :: "number \<Rightarrow> bool" where
  "positive (Fin x) = (0 < x)"
| "positive PosInf = True"
| "positive _ = False"

definition price_positive :: "number option \<Rightarrow> bool" where
  "price_positive p = (case p of None \<Rightarrow> False | Some x \<Rightarrow> positive x)"

definition first_failed :: "closure \<Rightarrow> precondition option" where
  "first_failed c =
     (if \<not> wallet_connected (env c) then Some Wallet_connected
      else if eventId (state c) = [] then Some Identifier_present
      else if receiverAddress (state c) = [] then Some Receiver_present
      else if \<not> price_positive (ticketPrice (state c)) then Some Price_positive
      else None)"

text \<open>The notification the source shows for each of them.\<close>

fun warning_for :: "precondition \<Rightarrow> action" where
  "warning_for Wallet_connected = enqueueSnackbar ''Please connect your wallet first'' warning"
| "warning_for Identifier_present = enqueueSnackbar ''Please enter an Event ID'' error"
| "warning_for Receiver_present = enqueueSnackbar ''Please enter a receiver address'' error"
| "warning_for Price_positive = enqueueSnackbar ''Ticket price not available'' error"

text \<open>The loading flag after the first \<open>n\<close> actions of a trace.\<close>

definition loading_after :: "nat \<Rightarrow> action list \<Rightarrow> component_state \<Rightarrow> bool" where
  "loading_after n tr s = loading (run_actions (take n tr) s)"

subsection \<open>Sample values\<close>

text \<open>
  A connected wallet, a contract whose calls all succeed and whose ticket costs 4100000
  micro-units (4.1 units), and the closure of a render with the identifier 42 entered.
\<close>

definition sample_env :: environment where
  "sample_env =
     \<lparr>activeAddress = Some ''SENDER'', transactionSigner = Some (Signer 7),
      enqueueSnackbar_ref = 8, algodConfig = 9\<rparr>"

definition sample_world :: world where
  "sample_world =
     \<lparr>APP_ID = 1001, IS_DEVELOPMENT = False,
      getClient = (\<lambda>f n. Inr (AppClient n)),
      getTicketPrice = (\<lambda>client. Inr (Fin 4100000)),
      getTransactionParams = (\<lambda>client. Inr (SuggestedParams 0)),
      payment_refused = (\<lambda>p. None),
      bookTicket = (\<lambda>client n txn. Inr ''5'')\<rparr>"

definition sample_state :: component_state where
  "sample_state = initial_state\<lparr>eventId := ''42''\<rparr>"

definition sample_closure :: closure where
  "sample_closure = rendered (render sample_world sample_env sample_state mount)"

text \<open>The same contract, with every remote call failing.\<close>

definition failing_world :: world where
  "failing_world =
     sample_world
       \<lparr>getTicketPrice := (\<lambda>client. Inl (Error_instance ''price unavailable'')),
        bookTicket := (\<lambda>client n txn. Inl (Error_instance ''rejected''))\<rparr>"

text \<open>
  The state once the price-fetch effect of the first render has run, and the closure of the
  render that follows.
\<close>

definition fetched_state :: component_state where
  "fetched_state = run_actions (fst (fetchTicketPrice sample_world sample_closure)) sample_state"

definition fetched_closure :: closure where
  "fetched_closure =
     rendered (render sample_world sample_env fetched_state
                 (memory (render sample_world sample_env sample_state mount)))"

text \<open>The closure of the first render of the dialog: nothing entered yet.\<close>

definition initial_closure :: closure where
  "initial_closure = rendered (render sample_world sample_env initial_state mount)"

text \<open>
  The same wallet and snackbar in a render for which
  \<^verbatim>\<open>getAlgodConfigFromViteEnvironment()\<close> returned another object.
\<close>

definition reconfigured_env :: environment where
  "reconfigured_env = sample_env\<lparr>algodConfig := 10\<rparr>"

text \<open>A contract whose price read resolves to NaN, and the state after the effect ran.\<close>

definition nan_world :: world where
  "nan_world = sample_world\<lparr>getTicketPrice := (\<lambda>client. Inr NaN)\<rparr>"

definition nan_state :: component_state where
  "nan_state = run_actions (fst (fetchTicketPrice nan_world sample_closure)) sample_state"

text \<open>
  A render before the wallet is connected, followed by the render after it connected; and
  the closure of a render with a text entered that is no numeral.
\<close>

definition disconnected_env :: environment where
  "disconnected_env = sample_env\<lparr>activeAddress := None, transactionSigner := None\<rparr>"

definition connected_later :: closure where
  "connected_later =
     rendered (render sample_world sample_env fetched_state
                 (after_renders sample_world [(disconnected_env, initial_state)] mount))"

definition abc_closure :: closure where
  "abc_closure = fetched_closure\<lparr>state := fetched_state\<lparr>eventId := ''abc''\<rparr>\<rparr>"

text \<open>
  The text of what was thrown: the message of an \<^verbatim>\<open>Error\<close>, the text of any other value.
\<close>

fun thrown_text :: "thrown \<Rightarrow> string" where
  "thrown_text (Error_instance msg) = msg"
| "thrown_text (Other_value other) = other"

text \<open>\<^verbatim>\<open>text.startsWith(part)\<close> and \<^verbatim>\<open>text.includes(part)\<close>\<close>

fun starts_with :: "string \<Rightarrow> string \<Rightarrow> bool" where
  "starts_with whole [] = True"
| "starts_with [] (ch # part) = False"
| "starts_with (ch' # whole) (ch # part) = (ch' = ch \<and> starts_with whole part)"

fun includes_text :: "string \<Rightarrow> string \<Rightarrow> bool" where
  "includes_text [] part = (part = [])"
| "includes_text (ch # whole) part =
     (starts_with (ch # whole) part \<or> includes_text whole part)"

text \<open>
  The sample contract with a booking call that rejects with the string \<^verbatim>\<open>boom\<close> (a value
  that is not an \<^verbatim>\<open>Error\<close>), and with a node whose transaction parameters cannot be read.
\<close>

definition throwing_world :: world where
  "throwing_world = sample_world\<lparr>bookTicket := (\<lambda>client n txn. Inl (Other_value ''boom''))\<rparr>"

definition offline_world :: world where
  "offline_world =
     sample_world\<lparr>getTransactionParams := (\<lambda>client. Inl (Error_instance ''network down''))\<rparr>"

section \<open>Properties\<close>

subsection \<open>The guards of the source and the preconditions of the specification\<close>

lemmas eff_defs =
  and_then_def try_catch_def try_finally_def does_def await_def returns_def throws_def

lemma wallet_guard:
  "(falsy_string (activeAddress e) \<or> falsy_signer (transactionSigner e)) = (\<not> wallet_connected e)"
  by (auto simp: falsy_string_def falsy_signer_def wallet_connected_def split: option.splits)

lemma price_guard: "(falsy_price p \<or> le_zero (ToNumber p)) = (\<not> price_positive p)"
proof (cases p)
  case None
  then show ?thesis by (simp add: falsy_price_def price_positive_def)
next
  case (Some x)
  then show ?thesis
    by (cases x) (auto simp: falsy_price_def price_positive_def falsy_number_def)
qed

lemma handleBuyTicket_failed:
  "first_failed c = Some k \<Longrightarrow> handleBuyTicket w c = ([warning_for k], Inr ())"
  using wallet_guard [of "env c"] price_guard [of "ticketPrice (state c)"]
  by (auto simp: first_failed_def handleBuyTicket_def does_def split: if_splits)

lemma handleBuyTicket_passed:
  "first_failed c = None \<Longrightarrow>
   handleBuyTicket w c =
     (setLoading True # fst (try_catch (book w c) booking_failed) @ [setLoading False],
      snd (try_catch (book w c) booking_failed))"
  using wallet_guard [of "env c"] price_guard [of "ticketPrice (state c)"]
  by (auto simp: first_failed_def handleBuyTicket_def eff_defs
      split: if_splits prod.splits sum.splits)

subsection \<open>The outcomes of the \<^verbatim>\<open>try\<close> block\<close>

text \<open>
  How far \<open>book\<close> gets: the first call that throws ends it; the remote calls started before
  stay in the trace.
\<close>

lemma book_unfold:
  "book w c =
     (case appFactory (getAppClient c) of
        None \<Rightarrow> ([], Inl (Error_instance ''Wallet not connected or factory not initialized''))
      | Some f \<Rightarrow>
         (case getClient w f (APP_ID w) of
            Inl e \<Rightarrow> ([], Inl e)
          | Inr cl \<Rightarrow>
             (case getTransactionParams w (algodClient c) of
                Inl e \<Rightarrow> ([call_getTransactionParams (algodClient c)], Inl e)
              | Inr ps \<Rightarrow>
                 (case payment_refused w (payment_of c ps) of
                    Some e \<Rightarrow> ([call_getTransactionParams (algodClient c)], Inl e)
                  | None \<Rightarrow>
                     (case bookTicket w cl (Number (eventId (state c))) (payment_of c ps) of
                        Inl e \<Rightarrow>
                          ([call_getTransactionParams (algodClient c),
                            call_bookTicket cl (Number (eventId (state c))) (payment_of c ps)],
                           Inl e)
                      | Inr response \<Rightarrow>
                          ([call_getTransactionParams (algodClient c),
                            call_bookTicket cl (Number (eventId (state c))) (payment_of c ps),
                            enqueueSnackbar
                              (''Ticket booked successfully! Ticket ID: '' @ response) success,
                            closeModal,
                            setEventId [],
                            setReceiverAddress
                              ''2ZTFJNDXPWDETGJQQN33HAATRHXZMBWESKO2AUFZUHERH2H3TG4XTNPL4Y'',
                            setTicketPrice None,
                            dispatchEvent ''refreshTickets''],
                           Inr ()))))))"
  by (simp add: book_def eff_defs call_getAppClient_def
      makePaymentTxnWithSuggestedParamsFromObject_def
      split: option.splits sum.splits)

text \<open>A booking call in the trace of the \<^verbatim>\<open>try\<close> block fixes everything before it.\<close>

lemma book_reaches_booking:
  assumes "call_bookTicket cl n txn \<in> set (fst (book w c))"
  obtains f ps where
    "appFactory (getAppClient c) = Some f"
    "getClient w f (APP_ID w) = Inr cl"
    "getTransactionParams w (algodClient c) = Inr ps"
    "payment_refused w (payment_of c ps) = None"
    "n = Number (eventId (state c))"
    "txn = payment_of c ps"
  using assms unfolding book_unfold
  by (auto split: option.splits sum.splits)

lemma book_succeeds:
  assumes "call_bookTicket cl n txn \<in> set (fst (book w c))"
      and "bookTicket w cl n txn = Inr response"
  shows "try_catch (book w c) booking_failed =
           ([call_getTransactionParams (algodClient c),
             call_bookTicket cl n txn,
             enqueueSnackbar (''Ticket booked successfully! Ticket ID: '' @ response) success,
             closeModal,
             setEventId [],
             setReceiverAddress ''2ZTFJNDXPWDETGJQQN33HAATRHXZMBWESKO2AUFZUHERH2H3TG4XTNPL4Y'',
             setTicketPrice None,
             dispatchEvent ''refreshTickets''],
            Inr ())"
proof -
  from assms(1) obtain f ps where
    "appFactory (getAppClient c) = Some f" "getClient w f (APP_ID w) = Inr cl"
    "getTransactionParams w (algodClient c) = Inr ps"
    "payment_refused w (payment_of c ps) = None"
    "n = Number (eventId (state c))" "txn = payment_of c ps"
    by (rule book_reaches_booking)
  with assms(2) show ?thesis
    by (simp add: book_unfold try_catch_def)
qed

lemma book_fails:
  assumes "call_bookTicket cl n txn \<in> set (fst (book w c))"
      and "bookTicket w cl n txn = Inl e"
  shows "try_catch (book w c) booking_failed =
           ([call_getTransactionParams (algodClient c),
             call_bookTicket cl n txn,
             console_error ''Error booking ticket:'' e,
             enqueueSnackbar (''Error booking ticket: '' @ errorMessage e ''Unknown error'') error],
            Inr ())"
proof -
  from assms(1) obtain f ps where
    "appFactory (getAppClient c) = Some f" "getClient w f (APP_ID w) = Inr cl"
    "getTransactionParams w (algodClient c) = Inr ps"
    "payment_refused w (payment_of c ps) = None"
    "n = Number (eventId (state c))" "txn = payment_of c ps"
    by (rule book_reaches_booking)
  with assms(2) show ?thesis
    by (simp add: book_unfold try_catch_def booking_failed_def and_then_def does_def)
qed

text \<open>A submission that started a booking call passed the four preconditions.\<close>

lemma booking_call_passed:
  assumes "call_bookTicket cl n txn \<in> set (fst (handleBuyTicket w c))"
  shows "first_failed c = None"
proof (cases "first_failed c")
  case None
  then show ?thesis .
next
  case (Some k)
  then have "handleBuyTicket w c = ([warning_for k], Inr ())"
    by (rule handleBuyTicket_failed)
  with assms show ?thesis by (cases k) simp_all
qed

lemma booking_call_in_try:
  assumes "call_bookTicket cl n txn \<in> set (fst (handleBuyTicket w c))"
  shows "call_bookTicket cl n txn \<in> set (fst (book w c))"
proof -
  have passed: "first_failed c = None"
    using assms by (rule booking_call_passed)
  have "call_bookTicket cl n txn \<in> set (fst (try_catch (book w c) booking_failed))"
    using assms by (simp add: handleBuyTicket_passed [OF passed])
  then show ?thesis
    by (auto simp: try_catch_def booking_failed_def and_then_def does_def
        split: prod.splits sum.splits)
qed

lemma handleBuyTicket_booked:
  assumes "call_bookTicket cl n txn \<in> set (fst (handleBuyTicket w c))"
      and "bookTicket w cl n txn = Inr response"
  shows "handleBuyTicket w c =
           ([setLoading True,
             call_getTransactionParams (algodClient c),
             call_bookTicket cl n txn,
             enqueueSnackbar (''Ticket booked successfully! Ticket ID: '' @ response) success,
             closeModal,
             setEventId [],
             setReceiverAddress ''2ZTFJNDXPWDETGJQQN33HAATRHXZMBWESKO2AUFZUHERH2H3TG4XTNPL4Y'',
             setTicketPrice None,
             dispatchEvent ''refreshTickets'',
             setLoading False],
            Inr ())"
  using handleBuyTicket_passed [OF booking_call_passed [OF assms(1)], of w]
    book_succeeds [OF booking_call_in_try [OF assms(1)] assms(2)]
  by simp

lemma handleBuyTicket_rejected:
  assumes "call_bookTicket cl n txn \<in> set (fst (handleBuyTicket w c))"
      and "bookTicket w cl n txn = Inl e"
  shows "handleBuyTicket w c =
           ([setLoading True,
             call_getTransactionParams (algodClient c),
             call_bookTicket cl n txn,
             console_error ''Error booking ticket:'' e,
             enqueueSnackbar (''Error booking ticket: '' @ errorMessage e ''Unknown error'') error,
             setLoading False],
            Inr ())"
  using handleBuyTicket_passed [OF booking_call_passed [OF assms(1)], of w]
    book_fails [OF booking_call_in_try [OF assms(1)] assms(2)]
  by simp

subsection \<open>Sample values, evaluated\<close>

lemma sample_closure_eq:
  "sample_closure =
     \<lparr>state = sample_state, env = sample_env, algodClient = 0,
      getAppClient =
        \<lparr>callback_ref = 2,
         appFactory =
           Some \<lparr>factory_ref = 1, factory_algodClient = 0,
                 factory_activeAddress = Some ''SENDER'',
                 factory_transactionSigner = Some (Signer 7),
                 factory_isDevelopment = False\<rparr>\<rparr>\<rparr>"
  by (simp add: sample_closure_def render_def rendered_def mount_def useMemo_def
      new_appFactory_def sample_env_def sample_world_def falsy_string_def falsy_signer_def
      Let_def)

lemma Number_42: "Number ''42'' = Fin 42"
  by code_simp

lemma div_million_4100000:
  "js_div_1_000_000 (Fin 4100000) = Fin (2308094809027379 / 562949953421312)"
  by code_simp

lemma times_million_quotient:
  "js_mul_1_000_000 (Fin (2308094809027379 / 562949953421312)) =
     Fin (8804682956799999 / 2147483648)"
  by code_simp

lemma fetched_state_eq:
  "fetched_state =
     \<lparr>eventId = ''42'',
      receiverAddress = ''2ZTFJNDXPWDETGJQQN33HAATRHXZMBWESKO2AUFZUHERH2H3TG4XTNPL4Y'',
      loading = False,
      ticketPrice = Some (Fin (2308094809027379 / 562949953421312))\<rparr>"
  by (simp add: fetched_state_def fetchTicketPrice_def sample_closure_eq sample_state_def
      initial_state_def sample_env_def sample_world_def falsy_string_def falsy_signer_def
      eff_defs call_getAppClient_def run_actions_def div_million_4100000
      del: js_div_1_000_000.simps)

lemma fetched_closure_eq:
  "fetched_closure =
     \<lparr>state = fetched_state, env = sample_env, algodClient = 0,
      getAppClient =
        \<lparr>callback_ref = 2,
         appFactory =
           Some \<lparr>factory_ref = 1, factory_algodClient = 0,
                 factory_activeAddress = Some ''SENDER'',
                 factory_transactionSigner = Some (Signer 7),
                 factory_isDevelopment = False\<rparr>\<rparr>\<rparr>"
  by (simp add: fetched_closure_def render_def rendered_def memory_def mount_def useMemo_def
      new_appFactory_def sample_env_def sample_world_def falsy_string_def falsy_signer_def
      Let_def)

lemma first_failed_fetched: "first_failed fetched_closure = None"
  by (simp add: first_failed_def fetched_closure_eq fetched_state_eq sample_env_def
      wallet_connected_def price_positive_def)

lemma payment_of_fetched:
  "payment_of fetched_closure ps =
     \<lparr>sender = Some ''SENDER'',
      receiver = ''2ZTFJNDXPWDETGJQQN33HAATRHXZMBWESKO2AUFZUHERH2H3TG4XTNPL4Y'',
      amount = Fin (8804682956799999 / 2147483648),
      suggestedParams = ps\<rparr>"
  by (simp add: payment_of_def fetched_closure_eq fetched_state_eq sample_env_def
      times_million_quotient del: js_mul_1_000_000.simps)

lemma book_fetched_sample:
  "book sample_world fetched_closure =
     ([call_getTransactionParams 0,
       call_bookTicket (AppClient 1001) (Fin 42)
         (payment_of fetched_closure (SuggestedParams 0)),
       enqueueSnackbar ''Ticket booked successfully! Ticket ID: 5'' success,
       closeModal,
       setEventId [],
       setReceiverAddress ''2ZTFJNDXPWDETGJQQN33HAATRHXZMBWESKO2AUFZUHERH2H3TG4XTNPL4Y'',
       setTicketPrice None,
       dispatchEvent ''refreshTickets''],
      Inr ())"
proof -
  have "eventId (state fetched_closure) = ''42''"
    by (simp add: fetched_closure_eq fetched_state_eq)
  then have n: "Number (eventId (state fetched_closure)) = Fin 42"
    by (simp only: Number_42)
  have "appFactory (getAppClient fetched_closure) \<noteq> None" "algodClient fetched_closure = 0"
    by (simp_all add: fetched_closure_eq)
  then show ?thesis
    unfolding book_unfold n
    by (auto simp: sample_world_def split: option.splits)
qed

lemma book_fetched_failing:
  "book failing_world fetched_closure =
     ([call_getTransactionParams 0,
       call_bookTicket (AppClient 1001) (Fin 42)
         (payment_of fetched_closure (SuggestedParams 0))],
      Inl (Error_instance ''rejected''))"
proof -
  have "eventId (state fetched_closure) = ''42''"
    by (simp add: fetched_closure_eq fetched_state_eq)
  then have n: "Number (eventId (state fetched_closure)) = Fin 42"
    by (simp only: Number_42)
  have "appFactory (getAppClient fetched_closure) \<noteq> None" "algodClient fetched_closure = 0"
    by (simp_all add: fetched_closure_eq)
  then show ?thesis
    unfolding book_unfold n
    by (auto simp: sample_world_def failing_world_def split: option.splits)
qed

lemma sample_booking_call:
  "call_bookTicket (AppClient 1001) (Fin 42) (payment_of fetched_closure (SuggestedParams 0))
     \<in> set (fst (handleBuyTicket sample_world fetched_closure))"
  by (simp add: handleBuyTicket_passed [OF first_failed_fetched] book_fetched_sample
      try_catch_def)

lemma failing_booking_call:
  "call_bookTicket (AppClient 1001) (Fin 42) (payment_of fetched_closure (SuggestedParams 0))
     \<in> set (fst (handleBuyTicket failing_world fetched_closure))"
  by (simp add: handleBuyTicket_passed [OF first_failed_fetched] book_fetched_failing
      try_catch_def booking_failed_def and_then_def does_def)

subsection \<open>Submissions that fail a precondition\<close>

text \<open>
  Claim C1. A submission checks the four preconditions in the order wallet connected,
  event identifier present, receiver address present, price available and positive. When
  \<open>k\<close> is the first one that fails, \<open>handleBuyTicket\<close> returns at once: its whole trace is
  the one notification of \<open>k\<close>, which differs from the notification of every other
  precondition; no remote call is started, in particular no booking call, and the
  component state (\<open>eventId\<close>, \<open>receiverAddress\<close>, \<open>ticketPrice\<close>, \<open>loading\<close>) is what it was.
\<close>

theorem handleBuyTicket_precondition_failure:
  "first_failed c = Some k \<Longrightarrow>
     handleBuyTicket w c = ([warning_for k], Inr ())
     \<and> (\<forall>k'. k' \<noteq> k \<longrightarrow> warning_for k' \<noteq> warning_for k)
     \<and> filter is_remote_call (fst (handleBuyTicket w c)) = []
     \<and> bookings (fst (handleBuyTicket w c)) = []
     \<and> run_actions (fst (handleBuyTicket w c)) s = s"
proof -
  assume failed: "first_failed c = Some k"
  have trace: "handleBuyTicket w c = ([warning_for k], Inr ())"
    using failed by (rule handleBuyTicket_failed)
  have distinct: "\<forall>k'. k' \<noteq> k \<longrightarrow> warning_for k' \<noteq> warning_for k"
  proof (intro allI impI)
    fix k'
    assume "k' \<noteq> k"
    then show "warning_for k' \<noteq> warning_for k"
      by (cases k; cases k') simp_all
  qed
  have quiet: "filter is_remote_call [warning_for k] = []" "bookings [warning_for k] = []"
    "run_actions [warning_for k] s = s"
    by (cases k; simp add: bookings_def List.map_filter_simps run_actions_def)+
  from trace distinct quiet show ?thesis by simp
qed

theorem handleBuyTicket_precondition_failure_witness:
  "first_failed (rendered (render sample_world (sample_env\<lparr>activeAddress := None\<rparr>)
                   fetched_state mount)) = Some Wallet_connected
   \<and> handleBuyTicket sample_world
       (rendered (render sample_world (sample_env\<lparr>activeAddress := None\<rparr>) fetched_state mount))
     = ([enqueueSnackbar ''Please connect your wallet first'' warning], Inr ())
   \<and> first_failed (fetched_closure\<lparr>state := fetched_state\<lparr>eventId := []\<rparr>\<rparr>)
     = Some Identifier_present
   \<and> handleBuyTicket sample_world (fetched_closure\<lparr>state := fetched_state\<lparr>eventId := []\<rparr>\<rparr>)
     = ([enqueueSnackbar ''Please enter an Event ID'' error], Inr ())
   \<and> first_failed (fetched_closure\<lparr>state := fetched_state\<lparr>receiverAddress := []\<rparr>\<rparr>)
     = Some Receiver_present
   \<and> handleBuyTicket sample_world
       (fetched_closure\<lparr>state := fetched_state\<lparr>receiverAddress := []\<rparr>\<rparr>)
     = ([enqueueSnackbar ''Please enter a receiver address'' error], Inr ())
   \<and> first_failed sample_closure = Some Price_positive
   \<and> handleBuyTicket sample_world sample_closure
     = ([enqueueSnackbar ''Ticket price not available'' error], Inr ())
   \<and> run_actions (fst (handleBuyTicket sample_world sample_closure)) sample_state
     = sample_state"
proof -
  let ?c1 = "rendered (render sample_world (sample_env\<lparr>activeAddress := None\<rparr>)
               fetched_state mount)"
  let ?c2 = "fetched_closure\<lparr>state := fetched_state\<lparr>eventId := []\<rparr>\<rparr>"
  let ?c3 = "fetched_closure\<lparr>state := fetched_state\<lparr>receiverAddress := []\<rparr>\<rparr>"
  have f1: "first_failed ?c1 = Some Wallet_connected"
    by (simp add: first_failed_def render_def rendered_def Let_def sample_env_def
        wallet_connected_def)
  have f2: "first_failed ?c2 = Some Identifier_present"
    by (simp add: first_failed_def fetched_closure_eq sample_env_def wallet_connected_def)
  have f3: "first_failed ?c3 = Some Receiver_present"
    by (simp add: first_failed_def fetched_closure_eq fetched_state_eq sample_env_def
        wallet_connected_def)
  have f4: "first_failed sample_closure = Some Price_positive"
    by (simp add: first_failed_def sample_closure_eq sample_state_def initial_state_def
        sample_env_def wallet_connected_def price_positive_def)
  from f1 f2 f3 f4
    handleBuyTicket_precondition_failure [OF f1, of sample_world sample_state]
    handleBuyTicket_precondition_failure [OF f2, of sample_world sample_state]
    handleBuyTicket_precondition_failure [OF f3, of sample_world sample_state]
    handleBuyTicket_precondition_failure [OF f4, of sample_world sample_state]
  show ?thesis by (simp add: run_actions_def)
qed

subsection \<open>Submissions whose booking call succeeds or fails\<close>

text \<open>
  Claim C2. When the booking call of a submission succeeds, \<open>handleBuyTicket\<close> leaves
  \<open>eventId\<close> empty, \<open>receiverAddress\<close> at the default address of the initial state and
  \<open>ticketPrice\<close> at \<^verbatim>\<open>null\<close>; it calls \<open>closeModal\<close> once and dispatches exactly one window
  event, \<^verbatim>\<open>refreshTickets\<close>.
\<close>

theorem handleBuyTicket_success_resets_and_refreshes:
  "call_bookTicket cl n txn \<in> set (fst (handleBuyTicket w c)) \<Longrightarrow>
   bookTicket w cl n txn = Inr response \<Longrightarrow>
     eventId (run_actions (fst (handleBuyTicket w c)) s) = []
     \<and> receiverAddress (run_actions (fst (handleBuyTicket w c)) s)
         = receiverAddress initial_state
     \<and> ticketPrice (run_actions (fst (handleBuyTicket w c)) s) = None
     \<and> count_list (fst (handleBuyTicket w c)) closeModal = 1
     \<and> window_events (fst (handleBuyTicket w c)) = [''refreshTickets'']"
proof -
  assume "call_bookTicket cl n txn \<in> set (fst (handleBuyTicket w c))"
    and "bookTicket w cl n txn = Inr response"
  then have trace:
    "handleBuyTicket w c =
       ([setLoading True,
         call_getTransactionParams (algodClient c),
         call_bookTicket cl n txn,
         enqueueSnackbar (''Ticket booked successfully! Ticket ID: '' @ response) success,
         closeModal,
         setEventId [],
         setReceiverAddress ''2ZTFJNDXPWDETGJQQN33HAATRHXZMBWESKO2AUFZUHERH2H3TG4XTNPL4Y'',
         setTicketPrice None,
         dispatchEvent ''refreshTickets'',
         setLoading False],
        Inr ())"
    by (rule handleBuyTicket_booked)
  show ?thesis
    unfolding trace
    by (simp add: run_actions_def window_events_def List.map_filter_simps initial_state_def)
qed

theorem handleBuyTicket_success_resets_and_refreshes_witness:
  "call_bookTicket (AppClient 1001) (Fin 42) (payment_of fetched_closure (SuggestedParams 0))
     \<in> set (fst (handleBuyTicket sample_world fetched_closure))
   \<and> bookTicket sample_world (AppClient 1001) (Fin 42)
       (payment_of fetched_closure (SuggestedParams 0)) = Inr ''5''
   \<and> eventId (run_actions (fst (handleBuyTicket sample_world fetched_closure)) fetched_state)
       = []
   \<and> receiverAddress
       (run_actions (fst (handleBuyTicket sample_world fetched_closure)) fetched_state)
       = ''2ZTFJNDXPWDETGJQQN33HAATRHXZMBWESKO2AUFZUHERH2H3TG4XTNPL4Y''
   \<and> ticketPrice (run_actions (fst (handleBuyTicket sample_world fetched_closure)) fetched_state)
       = None
   \<and> count_list (fst (handleBuyTicket sample_world fetched_closure)) closeModal = 1
   \<and> window_events (fst (handleBuyTicket sample_world fetched_closure)) = [''refreshTickets'']"
proof -
  have ok: "bookTicket sample_world (AppClient 1001) (Fin 42)
              (payment_of fetched_closure (SuggestedParams 0)) = Inr ''5''"
    by (simp add: sample_world_def)
  from sample_booking_call ok
    handleBuyTicket_success_resets_and_refreshes [OF sample_booking_call ok, of fetched_state]
  show ?thesis by (simp add: initial_state_def)
qed

lemma starts_with_append: "starts_with (part @ rest) part"
  by (induction part) simp_all

lemma includes_text_append: "includes_text (before @ part @ rest) part"
proof (induction before)
  case Nil
  then show ?case
    by (cases "part @ rest") (use starts_with_append [of part rest] in auto)
next
  case (Cons ch before)
  then show ?case by simp
qed

lemma book_fetched_throwing:
  "book throwing_world fetched_closure =
     ([call_getTransactionParams 0,
       call_bookTicket (AppClient 1001) (Fin 42)
         (payment_of fetched_closure (SuggestedParams 0))],
      Inl (Other_value ''boom''))"
proof -
  have "eventId (state fetched_closure) = ''42''"
    by (simp add: fetched_closure_eq fetched_state_eq)
  then have n: "Number (eventId (state fetched_closure)) = Fin 42"
    by (simp only: Number_42)
  have "appFactory (getAppClient fetched_closure) \<noteq> None" "algodClient fetched_closure = 0"
    by (simp_all add: fetched_closure_eq)
  then show ?thesis
    unfolding book_unfold n
    by (auto simp: sample_world_def throwing_world_def split: option.splits)
qed

lemma handleBuyTicket_fetched_throwing:
  "handleBuyTicket throwing_world fetched_closure =
     ([setLoading True,
       call_getTransactionParams 0,
       call_bookTicket (AppClient 1001) (Fin 42)
         (payment_of fetched_closure (SuggestedParams 0)),
       console_error ''Error booking ticket:'' (Other_value ''boom''),
       enqueueSnackbar ''Error booking ticket: Unknown error'' error,
       setLoading False],
      Inr ())"
  by (simp add: handleBuyTicket_passed [OF first_failed_fetched] book_fetched_throwing
      try_catch_def booking_failed_def and_then_def does_def)

text \<open>
  Claim C3, as the source has it. When the booking call of a submission fails (the awaited
  call throws \<open>e\<close>), \<open>handleBuyTicket\<close> leaves \<open>eventId\<close>, \<open>receiverAddress\<close> and
  \<open>ticketPrice\<close> as they were, does not call \<open>closeModal\<close>, dispatches no window event, and
  shows exactly one notification, of variant \<open>error\<close>. When \<open>e\<close> is an \<^verbatim>\<open>Error\<close>, the text
  of the notification is \<^verbatim>\<open>Error booking ticket: \<close> followed by the message of \<open>e\<close>, so it
  contains that message; when \<open>e\<close> is any other value, the text is
  \<^verbatim>\<open>Error booking ticket: Unknown error\<close>, whatever was thrown.
\<close>

theorem handleBuyTicket_failure_keeps_input:
  "call_bookTicket cl n txn \<in> set (fst (handleBuyTicket w c)) \<Longrightarrow>
   bookTicket w cl n txn = Inl e \<Longrightarrow>
     eventId (run_actions (fst (handleBuyTicket w c)) s) = eventId s
     \<and> receiverAddress (run_actions (fst (handleBuyTicket w c)) s) = receiverAddress s
     \<and> ticketPrice (run_actions (fst (handleBuyTicket w c)) s) = ticketPrice s
     \<and> closeModal \<notin> set (fst (handleBuyTicket w c))
     \<and> window_events (fst (handleBuyTicket w c)) = []
     \<and> notifications (fst (handleBuyTicket w c))
         = [(''Error booking ticket: '' @ errorMessage e ''Unknown error'', error)]
     \<and> (case e of
           Error_instance msg \<Rightarrow>
             notifications (fst (handleBuyTicket w c))
               = [(''Error booking ticket: '' @ msg, error)]
             \<and> includes_text (''Error booking ticket: '' @ msg) (thrown_text e)
         | Other_value other \<Rightarrow>
             notifications (fst (handleBuyTicket w c))
               = [(''Error booking ticket: Unknown error'', error)])"
proof -
  assume "call_bookTicket cl n txn \<in> set (fst (handleBuyTicket w c))"
    and "bookTicket w cl n txn = Inl e"
  then have trace:
    "handleBuyTicket w c =
       ([setLoading True,
         call_getTransactionParams (algodClient c),
         call_bookTicket cl n txn,
         console_error ''Error booking ticket:'' e,
         enqueueSnackbar (''Error booking ticket: '' @ errorMessage e ''Unknown error'') error,
         setLoading False],
        Inr ())"
    by (rule handleBuyTicket_rejected)
  have contained:
    "includes_text (''Error booking ticket: '' @ msg) msg" for msg
    using includes_text_append [of "''Error booking ticket: ''" msg "[]"] by simp
  show ?thesis
  proof (cases e)
    case (Error_instance msg)
    with contained [of msg] show ?thesis
      unfolding trace
      by (simp add: run_actions_def window_events_def notifications_def
          List.map_filter_simps del: includes_text.simps starts_with.simps)
  next
    case (Other_value other)
    then show ?thesis
      unfolding trace
      by (simp add: run_actions_def window_events_def notifications_def
          List.map_filter_simps)
  qed
qed

theorem handleBuyTicket_failure_keeps_input_witness:
  "call_bookTicket (AppClient 1001) (Fin 42) (payment_of fetched_closure (SuggestedParams 0))
     \<in> set (fst (handleBuyTicket failing_world fetched_closure))
   \<and> bookTicket failing_world (AppClient 1001) (Fin 42)
       (payment_of fetched_closure (SuggestedParams 0)) = Inl (Error_instance ''rejected'')
   \<and> eventId (run_actions (fst (handleBuyTicket failing_world fetched_closure)) fetched_state)
       = ''42''
   \<and> ticketPrice
       (run_actions (fst (handleBuyTicket failing_world fetched_closure)) fetched_state)
       = Some (Fin (2308094809027379 / 562949953421312))
   \<and> closeModal \<notin> set (fst (handleBuyTicket failing_world fetched_closure))
   \<and> window_events (fst (handleBuyTicket failing_world fetched_closure)) = []
   \<and> notifications (fst (handleBuyTicket failing_world fetched_closure))
       = [(''Error booking ticket: rejected'', error)]
   \<and> includes_text ''Error booking ticket: rejected'' ''rejected''"
proof -
  have ko: "bookTicket failing_world (AppClient 1001) (Fin 42)
              (payment_of fetched_closure (SuggestedParams 0)) = Inl (Error_instance ''rejected'')"
    by (simp add: failing_world_def sample_world_def)
  from failing_booking_call ko
    handleBuyTicket_failure_keeps_input [OF failing_booking_call ko, of fetched_state]
  show ?thesis by (simp add: fetched_state_eq)
qed

text \<open>
  Claim C3 as stated fails when the thrown value is not an \<^verbatim>\<open>Error\<close>: a booking call that
  rejects with the string \<^verbatim>\<open>boom\<close> is reported as \<^verbatim>\<open>Unknown error\<close>, and the text of the
  notification does not contain what was thrown.
\<close>

theorem booking_failure_text_omits_thrown_string:
  "call_bookTicket (AppClient 1001) (Fin 42) (payment_of fetched_closure (SuggestedParams 0))
     \<in> set (fst (handleBuyTicket throwing_world fetched_closure))
   \<and> bookTicket throwing_world (AppClient 1001) (Fin 42)
       (payment_of fetched_closure (SuggestedParams 0)) = Inl (Other_value ''boom'')
   \<and> thrown_text (Other_value ''boom'') = ''boom''
   \<and> notifications (fst (handleBuyTicket throwing_world fetched_closure))
       = [(''Error booking ticket: Unknown error'', error)]
   \<and> \<not> includes_text ''Error booking ticket: Unknown error'' ''boom''"
proof -
  have rejected: "bookTicket throwing_world (AppClient 1001) (Fin 42)
                    (payment_of fetched_closure (SuggestedParams 0)) = Inl (Other_value ''boom'')"
    by (simp add: throwing_world_def)
  have absent: "\<not> includes_text ''Error booking ticket: Unknown error'' ''boom''"
    by simp
  from rejected absent show ?thesis
    by (simp add: handleBuyTicket_fetched_throwing notifications_def List.map_filter_simps
        del: includes_text.simps)
qed

subsection \<open>The price-fetch effect\<close>

lemma fetchTicketPrice_unfold:
  "fetchTicketPrice w c =
     (if eventId (state c) = [] \<or> \<not> wallet_connected (env c) then ([setTicketPrice None], Inr ())
      else
        (case appFactory (getAppClient c) of
           None \<Rightarrow>
             ([console_error ''Error fetching ticket price:''
                 (Error_instance ''Wallet not connected or factory not initialized''),
               setTicketPrice None,
               enqueueSnackbar ''Wallet not connected or factory not initialized'' error],
              Inr ())
         | Some f \<Rightarrow>
            (case getClient w f (APP_ID w) of
               Inl e \<Rightarrow>
                 ([console_error ''Error fetching ticket price:'' e,
                   setTicketPrice None,
                   enqueueSnackbar (errorMessage e ''Unable to fetch ticket price'') error],
                  Inr ())
             | Inr cl \<Rightarrow>
                (case getTicketPrice w cl of
                   Inl e \<Rightarrow>
                     ([call_getTicketPrice cl,
                       console_error ''Error fetching ticket price:'' e,
                       setTicketPrice None,
                       enqueueSnackbar (errorMessage e ''Unable to fetch ticket price'') error],
                      Inr ())
                 | Inr priceMicro \<Rightarrow>
                     ([call_getTicketPrice cl,
                       setTicketPrice (Some (js_div_1_000_000 priceMicro))],
                      Inr ())))))"
  using wallet_guard [of "env c"]
  by (auto simp: fetchTicketPrice_def eff_defs call_getAppClient_def
      split: option.splits sum.splits)

lemma fetch_reaches_call:
  assumes "call_getTicketPrice cl \<in> set (fst (fetchTicketPrice w c))"
  obtains f where
    "eventId (state c) \<noteq> []" "wallet_connected (env c)"
    "appFactory (getAppClient c) = Some f" "getClient w f (APP_ID w) = Inr cl"
  using assms unfolding fetchTicketPrice_unfold
  by (auto split: if_splits option.splits sum.splits)

lemma fetchTicketPrice_resolved:
  assumes "call_getTicketPrice cl \<in> set (fst (fetchTicketPrice w c))"
      and "getTicketPrice w cl = Inr p"
  shows "fetchTicketPrice w c =
           ([call_getTicketPrice cl, setTicketPrice (Some (js_div_1_000_000 p))], Inr ())"
proof -
  from assms(1) obtain f where
    "eventId (state c) \<noteq> []" "wallet_connected (env c)"
    "appFactory (getAppClient c) = Some f" "getClient w f (APP_ID w) = Inr cl"
    by (rule fetch_reaches_call)
  with assms(2) show ?thesis
    by (simp add: fetchTicketPrice_unfold)
qed

lemma fetchTicketPrice_rejected:
  assumes "call_getTicketPrice cl \<in> set (fst (fetchTicketPrice w c))"
      and "getTicketPrice w cl = Inl e"
  shows "fetchTicketPrice w c =
           ([call_getTicketPrice cl,
             console_error ''Error fetching ticket price:'' e,
             setTicketPrice None,
             enqueueSnackbar (errorMessage e ''Unable to fetch ticket price'') error],
            Inr ())"
proof -
  from assms(1) obtain f where
    "eventId (state c) \<noteq> []" "wallet_connected (env c)"
    "appFactory (getAppClient c) = Some f" "getClient w f (APP_ID w) = Inr cl"
    by (rule fetch_reaches_call)
  with assms(2) show ?thesis
    by (simp add: fetchTicketPrice_unfold)
qed

lemma fetch_sample:
  "fetchTicketPrice sample_world sample_closure =
     ([call_getTicketPrice (AppClient 1001),
       setTicketPrice (Some (Fin (2308094809027379 / 562949953421312)))],
      Inr ())"
  by (simp add: fetchTicketPrice_def sample_closure_eq sample_state_def
      initial_state_def sample_env_def sample_world_def falsy_string_def falsy_signer_def
      eff_defs call_getAppClient_def div_million_4100000
      del: js_div_1_000_000.simps)

lemma fetch_failing:
  "fetchTicketPrice failing_world sample_closure =
     ([call_getTicketPrice (AppClient 1001),
       console_error ''Error fetching ticket price:'' (Error_instance ''price unavailable''),
       setTicketPrice None,
       enqueueSnackbar ''price unavailable'' error],
      Inr ())"
  by (simp add: fetchTicketPrice_def sample_closure_eq sample_state_def
      initial_state_def sample_env_def sample_world_def failing_world_def falsy_string_def
      falsy_signer_def eff_defs call_getAppClient_def)

text \<open>
  Claim C4. When the price read of the effect resolves to the micro-unit value \<open>p\<close>, the
  effect sets \<open>ticketPrice\<close> to \<^verbatim>\<open>p / 1_000_000\<close> and does nothing else: for a finite \<open>p\<close>
  that is the binary64 number nearest to the quotient.
\<close>

theorem fetchTicketPrice_sets_price:
  "call_getTicketPrice cl \<in> set (fst (fetchTicketPrice w c)) \<Longrightarrow>
   getTicketPrice w cl = Inr p \<Longrightarrow>
     fetchTicketPrice w c =
       ([call_getTicketPrice cl, setTicketPrice (Some (js_div_1_000_000 p))], Inr ())
     \<and> ticketPrice (run_actions (fst (fetchTicketPrice w c)) s) = Some (js_div_1_000_000 p)
     \<and> (case p of
           Fin x \<Rightarrow> ticketPrice (run_actions (fst (fetchTicketPrice w c)) s)
                      = Some (round_binary64 (x / 1000000))
         | _ \<Rightarrow> ticketPrice (run_actions (fst (fetchTicketPrice w c)) s) = Some p)"
proof -
  assume "call_getTicketPrice cl \<in> set (fst (fetchTicketPrice w c))"
    and "getTicketPrice w cl = Inr p"
  then have trace:
    "fetchTicketPrice w c =
       ([call_getTicketPrice cl, setTicketPrice (Some (js_div_1_000_000 p))], Inr ())"
    by (rule fetchTicketPrice_resolved)
  show ?thesis
    unfolding trace by (cases p) (simp_all add: run_actions_def)
qed

theorem fetchTicketPrice_sets_price_witness:
  "call_getTicketPrice (AppClient 1001) \<in> set (fst (fetchTicketPrice sample_world sample_closure))
   \<and> getTicketPrice sample_world (AppClient 1001) = Inr (Fin 4100000)
   \<and> ticketPrice (run_actions (fst (fetchTicketPrice sample_world sample_closure)) sample_state)
       = Some (Fin (2308094809027379 / 562949953421312))"
proof -
  have called: "call_getTicketPrice (AppClient 1001)
                  \<in> set (fst (fetchTicketPrice sample_world sample_closure))"
    by (simp add: fetch_sample)
  have resolved: "getTicketPrice sample_world (AppClient 1001) = Inr (Fin 4100000)"
    by (simp add: sample_world_def)
  have "ticketPrice (run_actions (fst (fetchTicketPrice sample_world sample_closure)) sample_state)
          = Some (js_div_1_000_000 (Fin 4100000))"
    using fetchTicketPrice_sets_price [OF called resolved, of sample_state] by blast
  then have "ticketPrice
               (run_actions (fst (fetchTicketPrice sample_world sample_closure)) sample_state)
             = Some (Fin (2308094809027379 / 562949953421312))"
    by (simp only: div_million_4100000)
  with called resolved show ?thesis by blast
qed

subsection \<open>Exceptions stay inside the two operations\<close>

lemma try_block_resolves: "snd (try_catch (book w c) booking_failed) = Inr ()"
  unfolding book_unfold
  by (simp add: try_catch_def booking_failed_def and_then_def does_def
      split: option.splits sum.splits)

lemma handleBuyTicket_resolves: "snd (handleBuyTicket w c) = Inr ()"
proof (cases "first_failed c")
  case None
  then show ?thesis
    by (simp add: handleBuyTicket_passed try_block_resolves)
next
  case (Some k)
  then show ?thesis
    by (simp add: handleBuyTicket_failed)
qed

lemma fetchTicketPrice_resolves: "snd (fetchTicketPrice w c) = Inr ()"
  unfolding fetchTicketPrice_unfold
  by (simp split: option.splits sum.splits)

lemma fetch_precondition_failure:
  "eventId (state c) = [] \<or> \<not> wallet_connected (env c) \<Longrightarrow>
   fetchTicketPrice w c = ([setTicketPrice None], Inr ())"
  by (simp add: fetchTicketPrice_unfold)

lemma initial_closure_eventId: "eventId (state initial_closure) = []"
  by (simp add: initial_closure_def render_def rendered_def Let_def initial_state_def)

lemma notifications_append:
  "notifications (xs @ ys) = notifications xs @ notifications ys"
  by (simp add: notifications_def List.map_filter_def)

text \<open>A \<^verbatim>\<open>try\<close> block that throws has shown nothing yet; the \<^verbatim>\<open>catch\<close> block shows one error.\<close>

lemma book_throws_silently: "snd (book w c) = Inl e \<Longrightarrow> notifications (fst (book w c)) = []"
  unfolding book_unfold
  by (auto simp: notifications_def List.map_filter_simps split: option.splits sum.splits)

lemma try_block_failure:
  assumes "snd (book w c) = Inl e"
  shows "notifications (fst (try_catch (book w c) booking_failed))
           = [(''Error booking ticket: '' @ errorMessage e ''Unknown error'', error)]"
proof -
  obtain tr where book: "book w c = (tr, Inl e)"
    using assms by (cases "book w c") simp
  have "notifications tr = []"
    using book_throws_silently [OF assms] by (simp add: book)
  then show ?thesis
    by (simp add: book try_catch_def booking_failed_def and_then_def does_def
        notifications_append)
      (simp add: notifications_def List.map_filter_simps)
qed

lemma handleBuyTicket_try_failure:
  assumes "first_failed c = None" and "snd (book w c) = Inl e"
  shows "notifications (fst (handleBuyTicket w c))
           = [(''Error booking ticket: '' @ errorMessage e ''Unknown error'', error)]"
proof -
  have "notifications (fst (handleBuyTicket w c))
          = notifications (fst (try_catch (book w c) booking_failed))"
    by (simp add: handleBuyTicket_passed [OF assms(1)] notifications_def
        List.map_filter_simps List.map_filter_def)
  then show ?thesis
    by (simp add: try_block_failure [OF assms(2)])
qed

text \<open>A read of the transaction parameters in the trace fixes everything before it.\<close>

lemma params_call_passed:
  assumes "call_getTransactionParams r \<in> set (fst (handleBuyTicket w c))"
  shows "first_failed c = None"
proof (cases "first_failed c")
  case None
  then show ?thesis .
next
  case (Some k)
  then have "handleBuyTicket w c = ([warning_for k], Inr ())"
    by (rule handleBuyTicket_failed)
  with assms show ?thesis by (cases k) simp_all
qed

lemma params_call_rejected:
  assumes "call_getTransactionParams r \<in> set (fst (handleBuyTicket w c))"
      and "getTransactionParams w r = Inl e"
  shows "snd (book w c) = Inl e"
proof -
  have passed: "first_failed c = None"
    using assms(1) by (rule params_call_passed)
  have "call_getTransactionParams r \<in> set (fst (try_catch (book w c) booking_failed))"
    using assms(1) by (simp add: handleBuyTicket_passed [OF passed])
  then have "call_getTransactionParams r \<in> set (fst (book w c))"
    by (auto simp: try_catch_def booking_failed_def and_then_def does_def
        split: prod.splits sum.splits)
  then have "r = algodClient c \<and> (\<exists>f cl. appFactory (getAppClient c) = Some f
               \<and> getClient w f (APP_ID w) = Inr cl)"
    unfolding book_unfold by (auto split: option.splits sum.splits)
  with assms(2) show ?thesis
    unfolding book_unfold by auto
qed

lemma book_offline:
  "book offline_world fetched_closure =
     ([call_getTransactionParams 0], Inl (Error_instance ''network down''))"
proof -
  have "appFactory (getAppClient fetched_closure) \<noteq> None" "algodClient fetched_closure = 0"
    by (simp_all add: fetched_closure_eq)
  then show ?thesis
    unfolding book_unfold
    by (auto simp: sample_world_def offline_world_def split: option.splits)
qed

lemma handleBuyTicket_offline:
  "handleBuyTicket offline_world fetched_closure =
     ([setLoading True,
       call_getTransactionParams 0,
       console_error ''Error booking ticket:'' (Error_instance ''network down''),
       enqueueSnackbar ''Error booking ticket: network down'' error,
       setLoading False],
      Inr ())"
  by (simp add: handleBuyTicket_passed [OF first_failed_fetched] book_offline
      try_catch_def booking_failed_def and_then_def does_def)

text \<open>
  Claim C6, as the source has it. A precondition failure of \<open>handleBuyTicket\<close> shows exactly
  one notification, a warning or an error. A precondition failure of the price-fetch effect
  (empty \<open>eventId\<close> or no wallet) shows no notification: the effect only sets \<open>ticketPrice\<close>
  to \<^verbatim>\<open>null\<close>. A remote failure of either operation shows exactly one error notification:
  a rejected \<^verbatim>\<open>getTicketPrice\<close> in the effect, a rejected \<^verbatim>\<open>getTransactionParams\<close> or
  \<^verbatim>\<open>bookTicket\<close> in \<open>handleBuyTicket\<close>, and so does every other exception thrown in the
  \<^verbatim>\<open>try\<close> block of \<open>handleBuyTicket\<close>. Neither operation lets an exception out, whatever
  the outcome of its calls.
\<close>

theorem precondition_failures_notify_or_reset:
  "(first_failed c = Some k \<longrightarrow>
      (\<exists>msg v. notifications (fst (handleBuyTicket w c)) = [(msg, v)]
               \<and> (v = warning \<or> v = error)))
   \<and> (eventId (state c) = [] \<or> \<not> wallet_connected (env c) \<longrightarrow>
        fetchTicketPrice w c = ([setTicketPrice None], Inr ())
        \<and> notifications (fst (fetchTicketPrice w c)) = [])
   \<and> (call_getTicketPrice cl \<in> set (fst (fetchTicketPrice w c))
        \<and> getTicketPrice w cl = Inl e \<longrightarrow>
        notifications (fst (fetchTicketPrice w c))
          = [(errorMessage e ''Unable to fetch ticket price'', error)])
   \<and> (call_bookTicket cl' n txn \<in> set (fst (handleBuyTicket w c))
        \<and> bookTicket w cl' n txn = Inl e' \<longrightarrow>
        notifications (fst (handleBuyTicket w c))
          = [(''Error booking ticket: '' @ errorMessage e' ''Unknown error'', error)])
   \<and> (call_getTransactionParams r \<in> set (fst (handleBuyTicket w c))
        \<and> getTransactionParams w r = Inl e'' \<longrightarrow>
        notifications (fst (handleBuyTicket w c))
          = [(''Error booking ticket: '' @ errorMessage e'' ''Unknown error'', error)])
   \<and> (first_failed c = None \<and> snd (book w c) = Inl e''' \<longrightarrow>
        notifications (fst (handleBuyTicket w c))
          = [(''Error booking ticket: '' @ errorMessage e''' ''Unknown error'', error)])
   \<and> snd (handleBuyTicket w c) = Inr ()
   \<and> snd (fetchTicketPrice w c) = Inr ()"
proof (intro conjI impI)
  assume "first_failed c = Some k"
  then have "handleBuyTicket w c = ([warning_for k], Inr ())"
    by (rule handleBuyTicket_failed)
  then show "\<exists>msg v. notifications (fst (handleBuyTicket w c)) = [(msg, v)]
                    \<and> (v = warning \<or> v = error)"
    by (cases k) (simp_all add: notifications_def List.map_filter_simps)
next
  assume "eventId (state c) = [] \<or> \<not> wallet_connected (env c)"
  then show "fetchTicketPrice w c = ([setTicketPrice None], Inr ())"
    by (rule fetch_precondition_failure)
  then show "notifications (fst (fetchTicketPrice w c)) = []"
    by (simp add: notifications_def List.map_filter_simps)
next
  assume failed: "call_getTicketPrice cl \<in> set (fst (fetchTicketPrice w c))
                  \<and> getTicketPrice w cl = Inl e"
  show "notifications (fst (fetchTicketPrice w c))
          = [(errorMessage e ''Unable to fetch ticket price'', error)]"
    unfolding fetchTicketPrice_rejected [OF conjunct1 [OF failed] conjunct2 [OF failed]]
    by (simp add: notifications_def List.map_filter_simps)
next
  assume failed: "call_bookTicket cl' n txn \<in> set (fst (handleBuyTicket w c))
                  \<and> bookTicket w cl' n txn = Inl e'"
  show "notifications (fst (handleBuyTicket w c))
          = [(''Error booking ticket: '' @ errorMessage e' ''Unknown error'', error)]"
    unfolding handleBuyTicket_rejected [OF conjunct1 [OF failed] conjunct2 [OF failed]]
    by (simp add: notifications_def List.map_filter_simps)
next
  assume failed: "call_getTransactionParams r \<in> set (fst (handleBuyTicket w c))
                  \<and> getTransactionParams w r = Inl e''"
  have "first_failed c = None"
    using conjunct1 [OF failed] by (rule params_call_passed)
  moreover have "snd (book w c) = Inl e''"
    using conjunct1 [OF failed] conjunct2 [OF failed] by (rule params_call_rejected)
  ultimately show "notifications (fst (handleBuyTicket w c))
      = [(''Error booking ticket: '' @ errorMessage e'' ''Unknown error'', error)]"
    by (rule handleBuyTicket_try_failure)
next
  assume failed: "first_failed c = None \<and> snd (book w c) = Inl e'''"
  show "notifications (fst (handleBuyTicket w c))
          = [(''Error booking ticket: '' @ errorMessage e''' ''Unknown error'', error)]"
    using conjunct1 [OF failed] conjunct2 [OF failed] by (rule handleBuyTicket_try_failure)
next
  show "snd (handleBuyTicket w c) = Inr ()"
    by (rule handleBuyTicket_resolves)
next
  show "snd (fetchTicketPrice w c) = Inr ()"
    by (rule fetchTicketPrice_resolves)
qed

theorem precondition_failures_notify_or_reset_witness:
  "first_failed sample_closure = Some Price_positive
   \<and> notifications (fst (handleBuyTicket sample_world sample_closure))
       = [(''Ticket price not available'', error)]
   \<and> eventId (state initial_closure) = []
   \<and> fetchTicketPrice sample_world initial_closure = ([setTicketPrice None], Inr ())
   \<and> notifications (fst (fetchTicketPrice sample_world initial_closure)) = []
   \<and> call_getTicketPrice (AppClient 1001)
       \<in> set (fst (fetchTicketPrice failing_world sample_closure))
   \<and> getTicketPrice failing_world (AppClient 1001) = Inl (Error_instance ''price unavailable'')
   \<and> notifications (fst (fetchTicketPrice failing_world sample_closure))
       = [(''price unavailable'', error)]
   \<and> call_bookTicket (AppClient 1001) (Fin 42) (payment_of fetched_closure (SuggestedParams 0))
       \<in> set (fst (handleBuyTicket failing_world fetched_closure))
   \<and> bookTicket failing_world (AppClient 1001) (Fin 42)
       (payment_of fetched_closure (SuggestedParams 0)) = Inl (Error_instance ''rejected'')
   \<and> notifications (fst (handleBuyTicket failing_world fetched_closure))
       = [(''Error booking ticket: rejected'', error)]
   \<and> call_getTransactionParams 0 \<in> set (fst (handleBuyTicket offline_world fetched_closure))
   \<and> getTransactionParams offline_world 0 = Inl (Error_instance ''network down'')
   \<and> first_failed fetched_closure = None
   \<and> snd (book offline_world fetched_closure) = Inl (Error_instance ''network down'')
   \<and> notifications (fst (handleBuyTicket offline_world fetched_closure))
       = [(''Error booking ticket: network down'', error)]
   \<and> snd (handleBuyTicket failing_world fetched_closure) = Inr ()
   \<and> snd (fetchTicketPrice failing_world sample_closure) = Inr ()"
proof -
  have f: "first_failed sample_closure = Some Price_positive"
    by (simp add: first_failed_def sample_closure_eq sample_state_def initial_state_def
        sample_env_def wallet_connected_def price_positive_def)
  have one: "notifications (fst (handleBuyTicket sample_world sample_closure))
               = [(''Ticket price not available'', error)]"
    using precondition_failures_notify_or_reset [of sample_closure Price_positive sample_world]
      f handleBuyTicket_failed [OF f, of sample_world]
    by (simp add: notifications_def List.map_filter_simps)
  have silent: "fetchTicketPrice sample_world initial_closure = ([setTicketPrice None], Inr ())"
    "notifications (fst (fetchTicketPrice sample_world initial_closure)) = []"
    using precondition_failures_notify_or_reset [of initial_closure _ sample_world]
      initial_closure_eventId
    by (simp_all add: notifications_def List.map_filter_simps)
  have called: "call_getTicketPrice (AppClient 1001)
                  \<in> set (fst (fetchTicketPrice failing_world sample_closure))"
    by (simp add: fetch_failing)
  have rejected: "getTicketPrice failing_world (AppClient 1001)
                    = Inl (Error_instance ''price unavailable'')"
    by (simp add: failing_world_def)
  have shown: "notifications (fst (fetchTicketPrice failing_world sample_closure))
                 = [(''price unavailable'', error)]"
    using precondition_failures_notify_or_reset
      [of sample_closure _ failing_world "AppClient 1001" "Error_instance ''price unavailable''"]
      called rejected
    by simp
  have booking_rejected:
    "bookTicket failing_world (AppClient 1001) (Fin 42)
       (payment_of fetched_closure (SuggestedParams 0)) = Inl (Error_instance ''rejected'')"
    by (simp add: failing_world_def sample_world_def)
  have booking_shown: "notifications (fst (handleBuyTicket failing_world fetched_closure))
                         = [(''Error booking ticket: rejected'', error)]"
    using precondition_failures_notify_or_reset
      [of fetched_closure _ failing_world _ _ "AppClient 1001" "Fin 42"
          "payment_of fetched_closure (SuggestedParams 0)" "Error_instance ''rejected''"]
      failing_booking_call booking_rejected
    by simp
  have params_called:
    "call_getTransactionParams 0 \<in> set (fst (handleBuyTicket offline_world fetched_closure))"
    by (simp add: handleBuyTicket_offline)
  have params_rejected:
    "getTransactionParams offline_world 0 = Inl (Error_instance ''network down'')"
    by (simp add: offline_world_def)
  have thrown: "snd (book offline_world fetched_closure) = Inl (Error_instance ''network down'')"
    by (simp add: book_offline)
  have params_shown: "notifications (fst (handleBuyTicket offline_world fetched_closure))
                        = [(''Error booking ticket: network down'', error)]"
    using precondition_failures_notify_or_reset
      [of fetched_closure _ offline_world _ _ _ _ _ _ 0 "Error_instance ''network down''"
          "Error_instance ''network down''"]
      params_called params_rejected first_failed_fetched thrown
    by simp
  have quiet: "snd (handleBuyTicket failing_world fetched_closure) = Inr ()"
    "snd (fetchTicketPrice failing_world sample_closure) = Inr ()"
    using precondition_failures_notify_or_reset [of fetched_closure _ failing_world]
      precondition_failures_notify_or_reset [of sample_closure _ failing_world]
    by simp_all
  from f one initial_closure_eventId silent called rejected shown
    failing_booking_call booking_rejected booking_shown
    params_called params_rejected first_failed_fetched thrown params_shown quiet
  show ?thesis by blast
qed

text \<open>
  Claim C6 as stated fails in the effect: the first render of the dialog has an empty
  \<open>eventId\<close>, and its effect shows nothing.
\<close>

theorem fetch_precondition_failure_is_silent:
  "eventId (state initial_closure) = []
   \<and> fetchTicketPrice sample_world initial_closure = ([setTicketPrice None], Inr ())
   \<and> notifications (fst (fetchTicketPrice sample_world initial_closure)) = []"
proof -
  have "fetchTicketPrice sample_world initial_closure = ([setTicketPrice None], Inr ())"
    using initial_closure_eventId by (simp add: fetch_precondition_failure)
  then show ?thesis
    using initial_closure_eventId by (simp add: notifications_def List.map_filter_simps)
qed

subsection \<open>When the effect runs again\<close>

lemma effect_runs_iff:
  "effect_runs (render w e' s' (memory (render w e s h))) =
     (eventId s' \<noteq> eventId s
      \<or> activeAddress e' \<noteq> activeAddress e
      \<or> transactionSigner e' \<noteq> transactionSigner e
      \<or> callback_ref (getAppClient (rendered (render w e' s' (memory (render w e s h)))))
          \<noteq> callback_ref (getAppClient (rendered (render w e s h)))
      \<or> enqueueSnackbar_ref e' \<noteq> enqueueSnackbar_ref e)"
  by (auto simp: render_def effect_runs_def memory_def rendered_def Let_def)

lemma effect_stays_idle:
  assumes "eventId s' = eventId s"
      and "activeAddress e' = activeAddress e"
      and "transactionSigner e' = transactionSigner e"
      and "algodConfig e' = algodConfig e"
      and "enqueueSnackbar_ref e' = enqueueSnackbar_ref e"
  shows "\<not> effect_runs (render w e' s' (memory (render w e s h)))"
  using assms
  by (simp add: render_def effect_runs_def memory_def Let_def useMemo_def)

lemma render_failing_world: "render failing_world e s h = render sample_world e s h"
  by (simp add: render_def new_appFactory_def failing_world_def Let_def)

lemma rerender_reconfigured:
  "effect_runs (render sample_world reconfigured_env sample_state
                  (memory (render sample_world sample_env sample_state mount)))"
  by (simp add: render_def effect_runs_def memory_def Let_def useMemo_def mount_def
      new_appFactory_def reconfigured_env_def sample_env_def falsy_string_def falsy_signer_def)

text \<open>
  Claim C7, as the source has it. When the price read of the effect fails with \<open>e\<close>, the
  effect sets \<open>ticketPrice\<close> to \<^verbatim>\<open>null\<close> and shows one error notification; the failed read
  is its only remote call, there is no retry. A later render runs the effect again exactly
  when one of its five dependencies differs from the render before: \<open>eventId\<close>,
  \<open>activeAddress\<close>, \<open>transactionSigner\<close>, the \<open>getAppClient\<close> callback or
  \<open>enqueueSnackbar\<close>. A render with the same \<open>eventId\<close>, wallet, \<open>algodConfig\<close> object and
  \<open>enqueueSnackbar\<close> does not run it.
\<close>

theorem fetch_failure_resets_price_without_retry:
  "(call_getTicketPrice cl \<in> set (fst (fetchTicketPrice w c)) \<and> getTicketPrice w cl = Inl e \<longrightarrow>
      fetchTicketPrice w c =
        ([call_getTicketPrice cl,
          console_error ''Error fetching ticket price:'' e,
          setTicketPrice None,
          enqueueSnackbar (errorMessage e ''Unable to fetch ticket price'') error],
         Inr ())
      \<and> ticketPrice (run_actions (fst (fetchTicketPrice w c)) s) = None
      \<and> notifications (fst (fetchTicketPrice w c))
          = [(errorMessage e ''Unable to fetch ticket price'', error)]
      \<and> filter is_remote_call (fst (fetchTicketPrice w c)) = [call_getTicketPrice cl])
   \<and> effect_runs (render w e2 s2 (memory (render w e1 s1 h))) =
       (eventId s2 \<noteq> eventId s1
        \<or> activeAddress e2 \<noteq> activeAddress e1
        \<or> transactionSigner e2 \<noteq> transactionSigner e1
        \<or> callback_ref (getAppClient (rendered (render w e2 s2 (memory (render w e1 s1 h)))))
            \<noteq> callback_ref (getAppClient (rendered (render w e1 s1 h)))
        \<or> enqueueSnackbar_ref e2 \<noteq> enqueueSnackbar_ref e1)
   \<and> (eventId s2 = eventId s1 \<and> activeAddress e2 = activeAddress e1
        \<and> transactionSigner e2 = transactionSigner e1 \<and> algodConfig e2 = algodConfig e1
        \<and> enqueueSnackbar_ref e2 = enqueueSnackbar_ref e1 \<longrightarrow>
        \<not> effect_runs (render w e2 s2 (memory (render w e1 s1 h))))"
proof (intro conjI impI)
  assume failed: "call_getTicketPrice cl \<in> set (fst (fetchTicketPrice w c))
                  \<and> getTicketPrice w cl = Inl e"
  show trace:
    "fetchTicketPrice w c =
       ([call_getTicketPrice cl,
         console_error ''Error fetching ticket price:'' e,
         setTicketPrice None,
         enqueueSnackbar (errorMessage e ''Unable to fetch ticket price'') error],
        Inr ())"
    by (rule fetchTicketPrice_rejected [OF conjunct1 [OF failed] conjunct2 [OF failed]])
  show "ticketPrice (run_actions (fst (fetchTicketPrice w c)) s) = None"
    unfolding trace by (simp add: run_actions_def)
  show "notifications (fst (fetchTicketPrice w c))
          = [(errorMessage e ''Unable to fetch ticket price'', error)]"
    unfolding trace by (simp add: notifications_def List.map_filter_simps)
  show "filter is_remote_call (fst (fetchTicketPrice w c)) = [call_getTicketPrice cl]"
    unfolding trace by simp
next
  show "effect_runs (render w e2 s2 (memory (render w e1 s1 h))) =
          (eventId s2 \<noteq> eventId s1
           \<or> activeAddress e2 \<noteq> activeAddress e1
           \<or> transactionSigner e2 \<noteq> transactionSigner e1
           \<or> callback_ref (getAppClient (rendered (render w e2 s2 (memory (render w e1 s1 h)))))
               \<noteq> callback_ref (getAppClient (rendered (render w e1 s1 h)))
           \<or> enqueueSnackbar_ref e2 \<noteq> enqueueSnackbar_ref e1)"
    by (rule effect_runs_iff)
next
  assume "eventId s2 = eventId s1 \<and> activeAddress e2 = activeAddress e1
          \<and> transactionSigner e2 = transactionSigner e1 \<and> algodConfig e2 = algodConfig e1
          \<and> enqueueSnackbar_ref e2 = enqueueSnackbar_ref e1"
  then show "\<not> effect_runs (render w e2 s2 (memory (render w e1 s1 h)))"
    by (simp add: effect_stays_idle)
qed

theorem fetch_failure_resets_price_without_retry_witness:
  "call_getTicketPrice (AppClient 1001)
     \<in> set (fst (fetchTicketPrice failing_world sample_closure))
   \<and> getTicketPrice failing_world (AppClient 1001) = Inl (Error_instance ''price unavailable'')
   \<and> ticketPrice (run_actions (fst (fetchTicketPrice failing_world sample_closure)) fetched_state)
       = None
   \<and> notifications (fst (fetchTicketPrice failing_world sample_closure))
       = [(''price unavailable'', error)]
   \<and> filter is_remote_call (fst (fetchTicketPrice failing_world sample_closure))
       = [call_getTicketPrice (AppClient 1001)]
   \<and> \<not> effect_runs (render failing_world sample_env sample_state
                       (memory (render failing_world sample_env sample_state mount)))"
proof -
  have called: "call_getTicketPrice (AppClient 1001)
                  \<in> set (fst (fetchTicketPrice failing_world sample_closure))"
    by (simp add: fetch_failing)
  have rejected: "getTicketPrice failing_world (AppClient 1001)
                    = Inl (Error_instance ''price unavailable'')"
    by (simp add: failing_world_def)
  note at_sample =
    fetch_failure_resets_price_without_retry
      [of "AppClient 1001" failing_world sample_closure "Error_instance ''price unavailable''"
          fetched_state sample_env sample_state sample_env sample_state mount]
  have reset: "ticketPrice
                 (run_actions (fst (fetchTicketPrice failing_world sample_closure)) fetched_state)
               = None"
    and only_call: "filter is_remote_call (fst (fetchTicketPrice failing_world sample_closure))
                      = [call_getTicketPrice (AppClient 1001)]"
    and shown: "notifications (fst (fetchTicketPrice failing_world sample_closure))
                  = [(errorMessage (Error_instance ''price unavailable'')
                        ''Unable to fetch ticket price'', error)]"
    using called rejected at_sample by blast+
  have idle: "\<not> effect_runs (render failing_world sample_env sample_state
                             (memory (render failing_world sample_env sample_state mount)))"
    using at_sample by blast
  from called rejected reset only_call shown idle show ?thesis by simp
qed

text \<open>
  Claim C7 as stated fails: after the failed read, a render with the same \<open>eventId\<close> and
  the same wallet, in which only the \<open>algodConfig\<close> object is a new one, runs the effect
  again.
\<close>

theorem fetch_retriggered_by_new_algodConfig:
  "fetchTicketPrice failing_world sample_closure =
     ([call_getTicketPrice (AppClient 1001),
       console_error ''Error fetching ticket price:'' (Error_instance ''price unavailable''),
       setTicketPrice None,
       enqueueSnackbar ''price unavailable'' error],
      Inr ())
   \<and> run_actions (fst (fetchTicketPrice failing_world sample_closure)) sample_state
       = sample_state
   \<and> activeAddress reconfigured_env = activeAddress sample_env
   \<and> transactionSigner reconfigured_env = transactionSigner sample_env
   \<and> effect_runs (render failing_world reconfigured_env sample_state
                    (memory (render failing_world sample_env sample_state mount)))"
proof -
  have "run_actions (fst (fetchTicketPrice failing_world sample_closure)) sample_state
          = sample_state"
    by (simp add: fetch_failing run_actions_def sample_state_def initial_state_def)
  then show ?thesis
    using rerender_reconfigured
    by (simp add: fetch_failing render_failing_world reconfigured_env_def)
qed

subsection \<open>The memoised factory follows the wallet\<close>

lemma memo_consistent_mount: "memo_consistent mount"
  by (simp add: memo_consistent_def mount_def)

lemma new_appFactory_None:
  "(new_appFactory w r client e = None) = (\<not> wallet_connected e)"
  using wallet_guard [of e] by (simp add: new_appFactory_def)

lemma rendered_factory:
  assumes "memo_consistent h"
  shows "(appFactory (getAppClient (rendered (render w e s h))) = None) = (\<not> wallet_connected e)"
proof -
  define client where "client = useMemo (algodClient_memo h) (algodConfig e) (next_ref h)"
  define fac where
    "fac = useMemo (appFactory_memo h) (client, activeAddress e, transactionSigner e)
             (new_appFactory w (next_ref h + 1) client e)"
  define cb where
    "cb = useMemo (getAppClient_memo h) (map_option factory_ref fac)
            \<lparr>callback_ref = next_ref h + 2, appFactory = fac\<rparr>"
  have closure: "getAppClient (rendered (render w e s h)) = cb"
    by (simp add: render_def rendered_def Let_def cb_def fac_def client_def)
  have fac: "(fac = None) = (\<not> wallet_connected e)"
    using assms wallet_guard [of e]
    by (auto simp: fac_def useMemo_def memo_consistent_def new_appFactory_None
        split: option.splits)
  have "(appFactory cb = None) = (fac = None)"
    using assms
    by (auto simp: cb_def useMemo_def memo_consistent_def split: option.splits)
  with closure fac show ?thesis by simp
qed

lemma memo_consistent_render:
  assumes "memo_consistent h"
  shows "memo_consistent (memory (render w e s h))"
proof -
  define client where "client = useMemo (algodClient_memo h) (algodConfig e) (next_ref h)"
  define fac where
    "fac = useMemo (appFactory_memo h) (client, activeAddress e, transactionSigner e)
             (new_appFactory w (next_ref h + 1) client e)"
  define cb where
    "cb = useMemo (getAppClient_memo h) (map_option factory_ref fac)
            \<lparr>callback_ref = next_ref h + 2, appFactory = fac\<rparr>"
  have cells:
    "appFactory_memo (memory (render w e s h))
       = Some ((client, activeAddress e, transactionSigner e), fac)"
    "getAppClient_memo (memory (render w e s h)) = Some (map_option factory_ref fac, cb)"
    by (simp_all add: render_def memory_def Let_def cb_def fac_def client_def)
  have fac: "(fac = None) = (falsy_string (activeAddress e) \<or> falsy_signer (transactionSigner e))"
    using assms wallet_guard [of e]
    by (auto simp: fac_def useMemo_def memo_consistent_def new_appFactory_None
        split: option.splits)
  have "map_option factory_ref fac = map_option factory_ref (appFactory cb)"
    using assms
    by (auto simp: cb_def useMemo_def memo_consistent_def split: option.splits)
  with cells fac show ?thesis
    by (simp add: memo_consistent_def)
qed

lemma memo_consistent_after_renders:
  "memo_consistent h \<Longrightarrow> memo_consistent (after_renders w rs h)"
proof (induction rs arbitrary: h)
  case Nil
  then show ?case by simp
next
  case (Cons r rs)
  obtain e s where r: "r = (e, s)" by (cases r)
  from Cons.prems have "memo_consistent (memory (render w e s h))"
    by (rule memo_consistent_render)
  then have "memo_consistent (after_renders w rs (memory (render w e s h)))"
    by (rule Cons.IH)
  then show ?case by (simp add: r)
qed

lemma rendered_env: "env (rendered (render w e s h)) = e"
  by (simp add: render_def rendered_def Let_def)

lemma connected_later_eq:
  "connected_later =
     \<lparr>state = fetched_state, env = sample_env, algodClient = 0,
      getAppClient =
        \<lparr>callback_ref = 5,
         appFactory =
           Some \<lparr>factory_ref = 4, factory_algodClient = 0,
                 factory_activeAddress = Some ''SENDER'',
                 factory_transactionSigner = Some (Signer 7),
                 factory_isDevelopment = False\<rparr>\<rparr>\<rparr>"
  by (simp add: connected_later_def render_def rendered_def memory_def mount_def useMemo_def
      new_appFactory_def sample_env_def disconnected_env_def sample_world_def falsy_string_def
      falsy_signer_def Let_def)

text \<open>
  Claim C9. In the closure of every render (the first one or any later one, whatever the
  wallet, the state and the configuration objects of the renders before), the factory that
  \<open>getAppClient\<close> closes over is non-null exactly when \<open>activeAddress\<close> and
  \<open>transactionSigner\<close> are both present. So once the wallet check of \<open>handleBuyTicket\<close>
  has passed, calling \<open>getAppClient\<close> does not take the branch that throws
  \<^verbatim>\<open>Wallet not connected or factory not initialized\<close>: it returns what
  \<^verbatim>\<open>appFactory.getClient(CONFIG.APP_ID)\<close> returns.
\<close>

theorem getAppClient_error_unreachable:
  "c = rendered (render w e s (after_renders w history mount)) \<Longrightarrow>
     (appFactory (getAppClient c) \<noteq> None)
       = (\<not> (falsy_string (activeAddress (env c)) \<or> falsy_signer (transactionSigner (env c))))
     \<and> (\<not> (falsy_string (activeAddress (env c)) \<or> falsy_signer (transactionSigner (env c))) \<longrightarrow>
          (\<exists>f. appFactory (getAppClient c) = Some f
               \<and> call_getAppClient w (getAppClient c) = ([], getClient w f (APP_ID w))))"
proof -
  assume c: "c = rendered (render w e s (after_renders w history mount))"
  have "memo_consistent (after_renders w history mount)"
    using memo_consistent_mount by (rule memo_consistent_after_renders)
  then have "(appFactory (getAppClient c) = None) = (\<not> wallet_connected e)"
    unfolding c by (rule rendered_factory)
  moreover have "env c = e"
    unfolding c by (rule rendered_env)
  ultimately have iff:
    "(appFactory (getAppClient c) \<noteq> None)
       = (\<not> (falsy_string (activeAddress (env c)) \<or> falsy_signer (transactionSigner (env c))))"
    using wallet_guard [of e] by simp
  then show ?thesis
    by (auto simp: call_getAppClient_def)
qed

theorem getAppClient_error_unreachable_witness:
  "connected_later
     = rendered (render sample_world sample_env fetched_state
                   (after_renders sample_world [(disconnected_env, initial_state)] mount))
   \<and> \<not> (falsy_string (activeAddress (env connected_later))
          \<or> falsy_signer (transactionSigner (env connected_later)))
   \<and> appFactory (getAppClient connected_later) \<noteq> None
   \<and> call_getAppClient sample_world (getAppClient connected_later)
       = ([], Inr (AppClient 1001))"
proof -
  have wallet: "\<not> (falsy_string (activeAddress (env connected_later))
                    \<or> falsy_signer (transactionSigner (env connected_later)))"
    by (simp add: connected_later_eq sample_env_def falsy_string_def falsy_signer_def)
  from getAppClient_error_unreachable
         [of connected_later sample_world sample_env fetched_state
             "[(disconnected_env, initial_state)]", OF connected_later_def]
    wallet
  obtain f where
    "appFactory (getAppClient connected_later) = Some f"
    "call_getAppClient sample_world (getAppClient connected_later)
       = ([], getClient sample_world f (APP_ID sample_world))"
    by blast
  then have client: "call_getAppClient sample_world (getAppClient connected_later)
                       = ([], Inr (AppClient 1001))"
    and factory: "appFactory (getAppClient connected_later) \<noteq> None"
    by (simp_all add: sample_world_def)
  from connected_later_def wallet factory client show ?thesis
    by blast
qed

subsection \<open>What the booking call receives\<close>

lemma handleBuyTicket_reaches_booking:
  assumes "first_failed c = None"
      and "appFactory (getAppClient c) = Some f"
      and "getClient w f (APP_ID w) = Inr cl"
      and "getTransactionParams w (algodClient c) = Inr ps"
      and "payment_refused w (payment_of c ps) = None"
  shows "bookings (fst (handleBuyTicket w c)) = [(Number (eventId (state c)), payment_of c ps)]"
  using assms(2-5)
  by (simp add: handleBuyTicket_passed [OF assms(1)] book_unfold try_catch_def
      booking_failed_def and_then_def does_def bookings_def List.map_filter_simps
      split: sum.splits)

lemma StringToNumber_abc: "StringToNumber ''abc'' = None"
  by code_simp

lemma abc_closure_eq:
  "abc_closure =
     \<lparr>state = fetched_state\<lparr>eventId := ''abc''\<rparr>, env = sample_env, algodClient = 0,
      getAppClient =
        \<lparr>callback_ref = 2,
         appFactory =
           Some \<lparr>factory_ref = 1, factory_algodClient = 0,
                 factory_activeAddress = Some ''SENDER'',
                 factory_transactionSigner = Some (Signer 7),
                 factory_isDevelopment = False\<rparr>\<rparr>\<rparr>"
  by (simp add: abc_closure_def fetched_closure_eq)

text \<open>
  Claim C10. The event identifier handed to the booking call is \<^verbatim>\<open>Number(eventId)\<close>. The
  validation of \<open>handleBuyTicket\<close> only asks for a non-empty \<open>eventId\<close>: with a wallet, a
  receiver and a positive price, every non-empty \<open>eventId\<close> that is not a numeral passes
  it, and once the calls before it have succeeded the booking call is made, with NaN as
  its identifier.
\<close>

theorem booking_receives_Number_of_eventId:
  "wallet_connected (env c) \<Longrightarrow>
   eventId (state c) \<noteq> [] \<Longrightarrow>
   receiverAddress (state c) \<noteq> [] \<Longrightarrow>
   price_positive (ticketPrice (state c)) \<Longrightarrow>
   appFactory (getAppClient c) = Some f \<Longrightarrow>
   getClient w f (APP_ID w) = Inr cl \<Longrightarrow>
   getTransactionParams w (algodClient c) = Inr ps \<Longrightarrow>
   payment_refused w (payment_of c ps) = None \<Longrightarrow>
     first_failed c = None
     \<and> bookings (fst (handleBuyTicket w c)) = [(Number (eventId (state c)), payment_of c ps)]
     \<and> (StringToNumber (eventId (state c)) = None \<longrightarrow>
          bookings (fst (handleBuyTicket w c)) = [(NaN, payment_of c ps)])"
proof -
  assume valid: "wallet_connected (env c)" "eventId (state c) \<noteq> []"
    "receiverAddress (state c) \<noteq> []" "price_positive (ticketPrice (state c))"
  assume calls: "appFactory (getAppClient c) = Some f" "getClient w f (APP_ID w) = Inr cl"
    "getTransactionParams w (algodClient c) = Inr ps"
    "payment_refused w (payment_of c ps) = None"
  from valid have passed: "first_failed c = None"
    by (simp add: first_failed_def)
  from passed calls
  have "bookings (fst (handleBuyTicket w c)) = [(Number (eventId (state c)), payment_of c ps)]"
    by (rule handleBuyTicket_reaches_booking)
  with passed show ?thesis
    by (simp add: Number_def)
qed

theorem booking_receives_Number_of_eventId_witness:
  "wallet_connected (env abc_closure)
   \<and> eventId (state abc_closure) = ''abc''
   \<and> StringToNumber (eventId (state abc_closure)) = None
   \<and> first_failed abc_closure = None
   \<and> bookings (fst (handleBuyTicket sample_world abc_closure))
       = [(NaN, payment_of abc_closure (SuggestedParams 0))]"
proof -
  have id: "eventId (state abc_closure) = ''abc''"
    by (simp add: abc_closure_eq)
  have wallet: "wallet_connected (env abc_closure)"
    by (simp add: abc_closure_eq sample_env_def wallet_connected_def)
  have fields: "eventId (state abc_closure) \<noteq> []" "receiverAddress (state abc_closure) \<noteq> []"
    "price_positive (ticketPrice (state abc_closure))"
    by (simp_all add: abc_closure_eq fetched_state_eq price_positive_def)
  have calls:
    "appFactory (getAppClient abc_closure)
       = Some \<lparr>factory_ref = 1, factory_algodClient = 0,
               factory_activeAddress = Some ''SENDER'',
               factory_transactionSigner = Some (Signer 7),
               factory_isDevelopment = False\<rparr>"
    "getClient sample_world
       \<lparr>factory_ref = 1, factory_algodClient = 0, factory_activeAddress = Some ''SENDER'',
        factory_transactionSigner = Some (Signer 7), factory_isDevelopment = False\<rparr>
       (APP_ID sample_world) = Inr (AppClient 1001)"
    "getTransactionParams sample_world (algodClient abc_closure) = Inr (SuggestedParams 0)"
    "payment_refused sample_world (payment_of abc_closure (SuggestedParams 0)) = None"
    by (simp_all add: abc_closure_eq sample_world_def)
  have nan: "StringToNumber (eventId (state abc_closure)) = None"
    unfolding id by (rule StringToNumber_abc)
  note at_abc = booking_receives_Number_of_eventId [OF wallet fields calls]
  from at_abc have passed: "first_failed abc_closure = None"
    by blast
  from at_abc nan
  have "bookings (fst (handleBuyTicket sample_world abc_closure))
          = [(NaN, payment_of abc_closure (SuggestedParams 0))]"
    by blast
  with wallet id nan passed show ?thesis
    by blast
qed

subsection \<open>The amount of the payment\<close>

text \<open>
  Claim C5 at a price of 4100000 micro-units. The effect stores the binary64 quotient
  \<^verbatim>\<open>4100000 / 1_000_000\<close>, which is not 4.1, and the handler multiplies it back: the
  payment carries the sender and the receiver of the claim, but its amount is the binary64
  product \<open>4099999.9999999995\<close>, not the 4100000 that the price read returned.
\<close>

theorem payment_amount_differs_from_price:
  "getTicketPrice sample_world (AppClient 1001) = Inr (Fin 4100000)
   \<and> fetchTicketPrice sample_world sample_closure =
       ([call_getTicketPrice (AppClient 1001),
         setTicketPrice (Some (Fin (2308094809027379 / 562949953421312)))],
        Inr ())
   \<and> ticketPrice (state fetched_closure) = Some (Fin (2308094809027379 / 562949953421312))
   \<and> bookings (fst (handleBuyTicket sample_world fetched_closure)) =
       [(Fin 42,
         \<lparr>sender = Some ''SENDER'',
          receiver = ''2ZTFJNDXPWDETGJQQN33HAATRHXZMBWESKO2AUFZUHERH2H3TG4XTNPL4Y'',
          amount = Fin (8804682956799999 / 2147483648),
          suggestedParams = SuggestedParams 0\<rparr>)]
   \<and> Fin (8804682956799999 / 2147483648) \<noteq> Fin 4100000"
proof -
  have price: "getTicketPrice sample_world (AppClient 1001) = Inr (Fin 4100000)"
    by (simp add: sample_world_def)
  have stored: "ticketPrice (state fetched_closure)
                  = Some (Fin (2308094809027379 / 562949953421312))"
    by (simp add: fetched_closure_eq fetched_state_eq)
  have "bookings (fst (handleBuyTicket sample_world fetched_closure)) =
          [(Fin 42, payment_of fetched_closure (SuggestedParams 0))]"
    by (simp add: handleBuyTicket_passed [OF first_failed_fetched] book_fetched_sample
        try_catch_def bookings_def List.map_filter_simps)
  then have booked:
    "bookings (fst (handleBuyTicket sample_world fetched_closure)) =
       [(Fin 42,
         \<lparr>sender = Some ''SENDER'',
          receiver = ''2ZTFJNDXPWDETGJQQN33HAATRHXZMBWESKO2AUFZUHERH2H3TG4XTNPL4Y'',
          amount = Fin (8804682956799999 / 2147483648),
          suggestedParams = SuggestedParams 0\<rparr>)]"
    by (simp only: payment_of_fetched)
  have "(8804682956799999 / 2147483648 :: rat) \<noteq> 4100000"
    by simp
  with price stored booked fetch_sample show ?thesis
    by simp
qed

subsection \<open>The loading flag and the submit button\<close>

lemma apply_action_loading: "\<not> is_setLoading a \<Longrightarrow> loading (apply_action a s) = loading s"
  by (cases a) simp_all

lemma run_actions_loading:
  "\<forall>a \<in> set tr. \<not> is_setLoading a \<Longrightarrow> loading (run_actions tr s) = loading s"
  unfolding run_actions_def
  by (induction tr arbitrary: s) (simp_all add: apply_action_loading)

lemma try_block_keeps_loading:
  "\<forall>a \<in> set (fst (try_catch (book w c) booking_failed)). \<not> is_setLoading a"
  unfolding book_unfold
  by (simp add: try_catch_def booking_failed_def and_then_def does_def
      split: option.splits sum.splits)

lemma fetchTicketPrice_keeps_loading:
  "\<forall>a \<in> set (fst (fetchTicketPrice w c)). \<not> is_setLoading a"
  unfolding fetchTicketPrice_unfold
  by (simp split: option.splits sum.splits)

text \<open>
  Within a trace that sets the flag first, resets it last and leaves it alone in between,
  the flag is set strictly between the first action and the last.
\<close>

lemma loading_window:
  assumes quiet: "\<forall>a \<in> set mid. \<not> is_setLoading a"
      and n: "n \<le> length (setLoading True # mid @ [setLoading False])"
  shows "loading_after n (setLoading True # mid @ [setLoading False]) s
           = (if n = 0 then loading s else n < length (setLoading True # mid @ [setLoading False]))"
proof (cases n)
  case 0
  then show ?thesis
    by (simp add: loading_after_def run_actions_def)
next
  case (Suc k)
  show ?thesis
  proof (cases "k \<le> length mid")
    case True
    then have take: "take n (setLoading True # mid @ [setLoading False])
                       = setLoading True # take k mid"
      by (simp add: Suc)
    have "\<forall>a \<in> set (take k mid). \<not> is_setLoading a"
      using quiet by (meson in_set_takeD)
    then have "loading (run_actions (take k mid) (s\<lparr>loading := True\<rparr>)) = True"
      by (simp add: run_actions_loading)
    then show ?thesis
      using True by (simp add: loading_after_def take Suc run_actions_def)
  next
    case False
    with n have k: "k = Suc (length mid)"
      by (simp add: Suc)
    have "loading (run_actions mid (s\<lparr>loading := True\<rparr>)) = True"
      using quiet by (simp add: run_actions_loading)
    then show ?thesis
      by (simp add: loading_after_def Suc k run_actions_def)
  qed
qed

lemma submit_disabled_iff:
  "submit_disabled s =
     (loading s \<or> ticketPrice s = None \<or> ticketPrice s = Some (Fin 0) \<or> ticketPrice s = Some NaN)"
  by (auto simp: submit_disabled_def falsy_price_def falsy_number_def split: option.splits)

lemma nan_state_eq:
  "nan_state =
     \<lparr>eventId = ''42'',
      receiverAddress = ''2ZTFJNDXPWDETGJQQN33HAATRHXZMBWESKO2AUFZUHERH2H3TG4XTNPL4Y'',
      loading = False,
      ticketPrice = Some NaN\<rparr>"
  by (simp add: nan_state_def nan_world_def fetchTicketPrice_def sample_closure_eq
      sample_state_def initial_state_def sample_env_def sample_world_def falsy_string_def
      falsy_signer_def eff_defs call_getAppClient_def run_actions_def)

text \<open>
  Claim C8, as the source has it. The loading flag is false in the initial state, the
  price-fetch effect never sets it, and during a submission started with the flag false it
  is true exactly after the first action and before the last one of a submission that
  passed the four preconditions: \<open>handleBuyTicket\<close> sets it first and resets it last,
  whether the calls in between succeed or fail. The submit button is disabled exactly when
  the flag is true or \<open>ticketPrice\<close> is \<^verbatim>\<open>null\<close>, zero or NaN.
\<close>

theorem loading_only_during_submission:
  "loading initial_state = False
   \<and> (\<forall>a \<in> set (fst (fetchTicketPrice w c)). \<not> is_setLoading a)
   \<and> (\<not> loading s \<and> n \<le> length (fst (handleBuyTicket w c)) \<longrightarrow>
        loading_after n (fst (handleBuyTicket w c)) s
          = (first_failed c = None \<and> 0 < n \<and> n < length (fst (handleBuyTicket w c))))
   \<and> submit_disabled s =
       (loading s \<or> ticketPrice s = None \<or> ticketPrice s = Some (Fin 0)
        \<or> ticketPrice s = Some NaN)"
proof (intro conjI impI)
  show "loading initial_state = False"
    by (simp add: initial_state_def)
next
  show "\<forall>a \<in> set (fst (fetchTicketPrice w c)). \<not> is_setLoading a"
    by (rule fetchTicketPrice_keeps_loading)
next
  assume start: "\<not> loading s \<and> n \<le> length (fst (handleBuyTicket w c))"
  show "loading_after n (fst (handleBuyTicket w c)) s
          = (first_failed c = None \<and> 0 < n \<and> n < length (fst (handleBuyTicket w c)))"
  proof (cases "first_failed c")
    case None
    let ?mid = "fst (try_catch (book w c) booking_failed)"
    have trace: "fst (handleBuyTicket w c) = setLoading True # ?mid @ [setLoading False]"
      by (simp add: handleBuyTicket_passed [OF None])
    from start have "n \<le> length (setLoading True # ?mid @ [setLoading False])"
      by (simp add: trace)
    with try_block_keeps_loading [of w c]
    have "loading_after n (setLoading True # ?mid @ [setLoading False]) s
            = (if n = 0 then loading s
               else n < length (setLoading True # ?mid @ [setLoading False]))"
      by (rule loading_window)
    with start None show ?thesis
      by (simp add: trace)
  next
    case (Some k)
    have "\<forall>a \<in> set (take n [warning_for k]). \<not> is_setLoading a"
      by (cases k; cases n) simp_all
    then have "loading (run_actions (take n [warning_for k]) s) = loading s"
      by (rule run_actions_loading)
    with start Some show ?thesis
      by (simp add: handleBuyTicket_failed [OF Some] loading_after_def)
  qed
next
  show "submit_disabled s =
          (loading s \<or> ticketPrice s = None \<or> ticketPrice s = Some (Fin 0)
           \<or> ticketPrice s = Some NaN)"
    by (rule submit_disabled_iff)
qed

theorem loading_only_during_submission_witness:
  "\<not> loading fetched_state
   \<and> length (fst (handleBuyTicket failing_world fetched_closure)) = 6
   \<and> \<not> loading_after 0 (fst (handleBuyTicket failing_world fetched_closure)) fetched_state
   \<and> loading_after 1 (fst (handleBuyTicket failing_world fetched_closure)) fetched_state
   \<and> loading_after 5 (fst (handleBuyTicket failing_world fetched_closure)) fetched_state
   \<and> \<not> loading_after 6 (fst (handleBuyTicket failing_world fetched_closure)) fetched_state
   \<and> \<not> submit_disabled fetched_state
   \<and> submit_disabled sample_state"
proof -
  have idle: "\<not> loading fetched_state"
    by (simp add: fetched_state_eq)
  have len: "length (fst (handleBuyTicket failing_world fetched_closure)) = 6"
    by (simp add: handleBuyTicket_passed [OF first_failed_fetched] book_fetched_failing
        try_catch_def booking_failed_def and_then_def does_def)
  note window =
    loading_only_during_submission [of failing_world fetched_closure fetched_state]
  have at0: "\<not> loading_after 0 (fst (handleBuyTicket failing_world fetched_closure)) fetched_state"
    using window [of 0] idle len first_failed_fetched by simp
  have at1: "loading_after 1 (fst (handleBuyTicket failing_world fetched_closure)) fetched_state"
    using window [of 1] idle len first_failed_fetched by simp
  have at5: "loading_after 5 (fst (handleBuyTicket failing_world fetched_closure)) fetched_state"
    using window [of 5] idle len first_failed_fetched by simp
  have at6: "\<not> loading_after 6 (fst (handleBuyTicket failing_world fetched_closure)) fetched_state"
    using window [of 6] idle len first_failed_fetched by simp
  have enabled: "\<not> submit_disabled fetched_state"
    using window [of 0] by (simp add: fetched_state_eq)
  have disabled: "submit_disabled sample_state"
    using loading_only_during_submission [of failing_world fetched_closure sample_state 0]
    by (simp add: sample_state_def initial_state_def)
  from idle len at0 at1 at5 at6 enabled disabled show ?thesis
    by blast
qed

text \<open>
  Claim C8 as stated fails on a price that is neither \<^verbatim>\<open>null\<close> nor zero: when the price
  read resolves to NaN, the effect stores NaN, and the button is disabled although the
  flag is false.
\<close>

theorem submit_disabled_for_NaN_price:
  "getTicketPrice nan_world (AppClient 1001) = Inr NaN
   \<and> nan_state = run_actions (fst (fetchTicketPrice nan_world sample_closure)) sample_state
   \<and> ticketPrice nan_state = Some NaN
   \<and> loading nan_state = False
   \<and> submit_disabled nan_state"
proof -
  have read: "getTicketPrice nan_world (AppClient 1001) = Inr NaN"
    by (simp add: nan_world_def)
  have stored: "ticketPrice nan_state = Some NaN" "loading nan_state = False"
    "submit_disabled nan_state"
    by (simp_all add: nan_state_eq submit_disabled_def falsy_price_def falsy_number_def)
  from read nan_state_def stored show ?thesis
    by blast
qed

end
